theory Spec2Isabelle
  imports Main "HOL-Library.Word" "HOL-Library.Sublist"
begin

unbundle bit_operations_syntax

section \<open>Errors\<close>

text \<open>
  The file \<open>bootstrap/shell/shell.go\<close> is embedded for a Unix build (the build on which
  \<open>syscall.WaitStatus\<close> is a 32-bit status word and \<open>syscall.EIO\<close> an errno); the test
  for an absolute path is also given as it is on Windows, the other platform the file
  names. A Go \<open>error\<close> is an interface value; \<open>nil\<close> is \<open>None\<close> of \<open>go_error option\<close>,
  and the dynamic types the file tests for are constructors.
\<close>

text \<open>What \<open>(*os.ProcessState).Sys()\<close> returns: a \<open>syscall.WaitStatus\<close>, or a value of
  another dynamic type (for which the type assertion in \<open>GetExitCode\<close> fails).\<close>

datatype sys_value = WaitStatus "32 word" | OtherSys

datatype go_error =
    Errorf string "string list" "go_error option"
      \<comment> \<open>the value \<open>fmt.Errorf(format, strings..., err)\<close> builds: plain text, no \<open>Cause\<close> method\<close>
  | Errno nat
      \<comment> \<open>\<open>syscall.Errno\<close>\<close>
  | PathError string string go_error
      \<comment> \<open>\<open>*os.PathError{Op, Path, Err}\<close>\<close>
  | ExecError string go_error
      \<comment> \<open>\<open>*exec.Error{Name, Err}\<close>\<close>
  | ExitError sys_value
      \<comment> \<open>\<open>*exec.ExitError\<close>, with what its \<open>Sys()\<close> returns\<close>
  | withMessage go_error string "string list"
      \<comment> \<open>\<open>*errors.withMessage{cause, msg}\<close>, the message kept as format and operands\<close>
  | withStack go_error
      \<comment> \<open>\<open>*errors.withStack{error, stack}\<close>\<close>
  | Canceled
      \<comment> \<open>\<open>context.Canceled\<close>\<close>
  | DeadlineExceeded
      \<comment> \<open>\<open>context.DeadlineExceeded\<close>\<close>
  | ErrShortWrite
      \<comment> \<open>\<open>io.ErrShortWrite\<close>\<close>
  | ErrNeedAbsPath
      \<comment> \<open>\<open>lockfile.ErrNeedAbsPath\<close>\<close>
  | ErrBusy
      \<comment> \<open>\<open>lockfile.ErrBusy\<close>\<close>

definition EIO :: go_error where
  "EIO = Errno 5"

text \<open>\<open>errors.Wrapf\<close> of \<open>github.com/pkg/errors\<close>: \<open>nil\<close> stays \<open>nil\<close>, anything else is
  wrapped in a \<open>withMessage\<close> inside a \<open>withStack\<close>.\<close>

definition errors_Wrapf :: "go_error option \<Rightarrow> string \<Rightarrow> string list \<Rightarrow> go_error option" where
  "errors_Wrapf err format args =
     (case err of
        None \<Rightarrow> None
      | Some e \<Rightarrow> Some (withStack (withMessage e format args)))"

text \<open>\<open>errors.Cause\<close>: follows \<open>Cause()\<close> as long as the error has that method; only
  \<open>withMessage\<close> and \<open>withStack\<close> have it.\<close>

fun errors_Cause :: "go_error \<Rightarrow> go_error" where
  "errors_Cause (withMessage e msg args) = errors_Cause e"
| "errors_Cause (withStack e) = errors_Cause e"
| "errors_Cause e = e"

section \<open>Exit codes\<close>

text \<open>\<open>syscall.WaitStatus\<close> on Linux: \<open>mask = 0x7F\<close>, \<open>exited = 0\<close>, \<open>shift = 8\<close>.\<close>

definition Exited :: "32 word \<Rightarrow> bool" where
  "Exited w \<longleftrightarrow> w AND 0x7F = 0"

definition ExitStatus :: "32 word \<Rightarrow> int" where
  "ExitStatus w = (if \<not> Exited w then - 1 else uint (drop_bit 8 w) AND 0xFF)"

definition GetExitCode :: "go_error option \<Rightarrow> int" where
  "GetExitCode err =
     (case err of
        None \<Rightarrow> 0
      | Some e \<Rightarrow>
          (case errors_Cause e of
             ExitError (WaitStatus status) \<Rightarrow> ExitStatus status
           | _ \<Rightarrow> 1))"

section \<open>Paths\<close>

text \<open>The path functions of the Go standard library that the file calls, as they are on
  Unix (separator \<open>/\<close>, no volume names). \<open>path.IsAbs\<close> is
  \<open>len(path) > 0 && path[0] == '/'\<close> and \<open>filepath.IsAbs\<close> is
  \<open>strings.HasPrefix(path, "/")\<close>.\<close>

definition path_IsAbs :: "string \<Rightarrow> bool" where
  "path_IsAbs p \<longleftrightarrow> (case p of [] \<Rightarrow> False | c # cs \<Rightarrow> c = CHR ''/'')"

definition filepath_IsAbs :: "string \<Rightarrow> bool" where
  "filepath_IsAbs p \<longleftrightarrow> prefix ''/'' p"

text \<open>\<open>filepath.Clean\<close> reads the path byte by byte and writes a buffer \<open>out\<close>. At a
  \<open>..\<close> element it moves the write index back to the last separator, but not below
  \<open>dotdot\<close>: \<open>out.w--; for out.w > dotdot && !sep(out.index(out.w)) { out.w-- }\<close>.\<close>

function backtrack :: "string \<Rightarrow> nat \<Rightarrow> nat \<Rightarrow> nat" where
  "backtrack out dotdot w =
     (if w > dotdot \<and> out ! w \<noteq> CHR ''/'' then backtrack out dotdot (w - 1) else w)"
  by pat_completeness auto
termination
  by (relation "measure (\<lambda>(out, dotdot, w). w)") auto

declare backtrack.simps [simp del]

text \<open>One round of the loop \<open>for r < n\<close>, at the byte \<open>c\<close> with the bytes \<open>cs\<close> after it:
  the unread rest of the path, the buffer and \<open>dotdot\<close> afterwards. The four cases are
  the four cases of the \<open>switch\<close>: an empty element, a \<open>.\<close> element, a \<open>..\<close> element, a
  real element (copied to the buffer up to the next separator).\<close>

definition clean_step :: "bool \<Rightarrow> char \<Rightarrow> string \<Rightarrow> string \<Rightarrow> nat \<Rightarrow> string \<times> string \<times> nat" where
  "clean_step rooted c cs out dotdot =
     (if c = CHR ''/'' then (cs, out, dotdot)
      else if c = CHR ''.'' \<and> (cs = [] \<or> hd cs = CHR ''/'') then (cs, out, dotdot)
      else if c = CHR ''.'' \<and> cs \<noteq> [] \<and> hd cs = CHR ''.'' \<and> (tl cs = [] \<or> hd (tl cs) = CHR ''/'') then
        (if length out > dotdot then
           (tl cs, take (backtrack out dotdot (length out - 1)) out, dotdot)
         else if \<not> rooted then
           (let out' = (if out \<noteq> [] then out @ ''/'' else out) @ ''..''
            in (tl cs, out', length out'))
         else (tl cs, out, dotdot))
      else
        (let out' = (if (rooted \<and> length out \<noteq> 1) \<or> (\<not> rooted \<and> length out \<noteq> 0)
                     then out @ ''/'' else out)
         in (dropWhile (\<lambda>x. x \<noteq> CHR ''/'') cs,
             out' @ c # takeWhile (\<lambda>x. x \<noteq> CHR ''/'') cs, dotdot)))"

lemma clean_step_shorter: "length (fst (clean_step rooted c cs out dotdot)) \<le> length cs"
proof -
  have "length (tl cs) \<le> length cs"
    by simp
  moreover have "length (dropWhile (\<lambda>x. x \<noteq> CHR ''/'') cs) \<le> length cs"
    by (rule length_dropWhile_le)
  ultimately show ?thesis
    by (simp add: clean_step_def Let_def del: length_tl)
qed

function clean_loop :: "bool \<Rightarrow> string \<Rightarrow> string \<Rightarrow> nat \<Rightarrow> string" where
  "clean_loop rooted [] out dotdot = out"
| "clean_loop rooted (c # cs) out dotdot =
     clean_loop rooted (fst (clean_step rooted c cs out dotdot))
       (fst (snd (clean_step rooted c cs out dotdot)))
       (snd (snd (clean_step rooted c cs out dotdot)))"
  by pat_completeness auto
termination
  by (relation "measure (\<lambda>(rooted, p, out, dotdot). length p)")
     (simp_all add: less_Suc_eq_le clean_step_shorter case_prod_beta)

definition filepath_Clean :: "string \<Rightarrow> string" where
  "filepath_Clean p =
     (if p = [] then ''.''
      else
        (let rooted = (hd p = CHR ''/'');
             out = (if rooted then clean_loop True (tl p) ''/'' 1 else clean_loop False p [] 0)
         in if out = [] then ''.'' else out))"

text \<open>\<open>filepath.Join\<close> of two elements: the elements from the first non-empty one on are
  joined with the separator and cleaned; two empty elements give the empty string.\<close>

definition filepath_Join :: "string \<Rightarrow> string \<Rightarrow> string" where
  "filepath_Join a b =
     (if a \<noteq> [] then filepath_Clean (a @ ''/'' @ b)
      else if b \<noteq> [] then filepath_Clean b
      else [])"

text \<open>\<open>filepath.Base\<close>: the last element, after the trailing separators are dropped.\<close>

definition filepath_Base :: "string \<Rightarrow> string" where
  "filepath_Base p =
     (if p = [] then ''.''
      else
        (let q = rev (dropWhile (\<lambda>c. c = CHR ''/'') (rev p));
             b = rev (takeWhile (\<lambda>c. c \<noteq> CHR ''/'') (rev q))
         in if b = [] then ''/'' else b))"

subsection \<open>Absolute paths on Windows\<close>

text \<open>\<open>filepath.IsAbs\<close> as it is on Windows: a path is absolute when a separator follows
  its volume name. \<open>volumeNameLen\<close> is the length of a leading drive letter with its
  colon, or of a leading UNC name (two separators, a server, a separator, a share): for
  the latter the source looks for the first separator from index 3 on, wants the byte
  after it to be neither a separator nor a dot, and reads on to the next separator or
  the end. \<open>path.IsAbs\<close> is the same on every platform.\<close>

definition isSlash :: "char \<Rightarrow> bool" where
  "isSlash c \<longleftrightarrow> c = CHR 0x5C \<or> c = CHR ''/''"

definition is_letter :: "char \<Rightarrow> bool" where
  "is_letter c \<longleftrightarrow>
     (97 \<le> (of_char c :: nat) \<and> (of_char c :: nat) \<le> 122) \<or>
     (65 \<le> (of_char c :: nat) \<and> (of_char c :: nat) \<le> 90)"

definition volumeNameLen :: "string \<Rightarrow> nat" where
  "volumeNameLen path =
     (if length path < 2 then 0
      else if path ! 1 = CHR '':'' \<and> is_letter (path ! 0) then 2
      else if length path \<ge> 5 \<and> isSlash (path ! 0) \<and> isSlash (path ! 1) \<and>
              \<not> isSlash (path ! 2) \<and> path ! 2 \<noteq> CHR ''.'' then
        (let n = 3 + length (takeWhile (\<lambda>c. \<not> isSlash c) (drop 3 path))
         in if n < length path - 1 then
              (if isSlash (path ! (n + 1)) then 0
               else if path ! (n + 1) = CHR ''.'' then 0
               else n + 1 + length (takeWhile (\<lambda>c. \<not> isSlash c) (drop (n + 1) path)))
            else 0)
      else 0)"

definition filepath_IsAbs_windows :: "string \<Rightarrow> bool" where
  "filepath_IsAbs_windows path =
     (let l = volumeNameLen path
      in if l = 0 then False
         else if drop l path = [] then False
         else isSlash (hd (drop l path)))"

section \<open>The environment container\<close>

text \<open>Modelled from the spec: package \<open>env\<close> is not part of the file. The spec gives the
  container as an "ordered mapping of variable name \<rightarrow> value" with
  "get(key) \<rightarrow> (value, found)", "toFlatList() \<rightarrow> ordered list of KEY=VALUE" and
  "fromFlatList(list) \<rightarrow> container". It is an association list with one entry per name;
  setting a name replaces its entry or adds one at the end.\<close>

type_synonym Environment = "(string \<times> string) list"

definition Env_Get :: "Environment \<Rightarrow> string \<Rightarrow> string \<times> bool" where
  "Env_Get e key = (case map_of e key of None \<Rightarrow> ([], False) | Some v \<Rightarrow> (v, True))"

fun Env_Set :: "string \<Rightarrow> string \<Rightarrow> Environment \<Rightarrow> Environment" where
  "Env_Set key v [] = [(key, v)]"
| "Env_Set key v ((k, x) # e) = (if k = key then (key, v) # e else (k, x) # Env_Set key v e)"

definition ToSlice :: "Environment \<Rightarrow> string list" where
  "ToSlice e = map (\<lambda>(k, v). k @ ''='' @ v) e"

definition FromSlice :: "string list \<Rightarrow> Environment" where
  "FromSlice ls =
     foldl (\<lambda>e l. if CHR ''='' \<in> set l
                   then Env_Set (takeWhile (\<lambda>c. c \<noteq> CHR ''='') l)
                          (tl (dropWhile (\<lambda>c. c \<noteq> CHR ''='') l)) e
                   else e) [] ls"

section \<open>The shell and what surrounds it\<close>

text \<open>An \<open>io.Writer\<close> as \<open>executeCommand\<close> wires it to the child: its own argument \<open>w\<close>,
  a \<open>LoggerStreamer\<close> made by \<open>NewLoggerStreamer(s.Logger)\<close>, or an \<open>io.MultiWriter\<close>
  of writers.\<close>

datatype Writer = W | LoggerStreamer | MultiWriter "Writer list"

datatype Reader = Reader

text \<open>The fields of \<open>exec.Cmd\<close> that the file sets or reads. \<open>lookPathErr\<close> is the
  unexported field in which \<open>exec.Command\<close> keeps a failed lookup.\<close>

record Cmd =
  Path :: string
  Args :: "string list"
  Cmd_Env :: "string list"
  Dir :: string
  Cmd_Stdout :: "Writer option"
  Cmd_Stderr :: "Writer option"
  Cmd_Stdin :: "Reader option"
  lookPathErr :: "go_error option"

text \<open>What the operating system and the child do when a command is launched: the result
  of \<open>process.StartPTY\<close>, the bytes \<open>io.Copy\<close> moves from the terminal to \<open>w\<close> and the
  error it returns, the result of \<open>cmd.Start\<close>, the bytes the child writes to its
  standard output and standard error, and the result of \<open>cmd.Wait\<close>.\<close>

record Process =
  StartPTY_err :: "go_error option"
  pty_bytes :: string
  Copy_err :: "go_error option"
  Start_err :: "go_error option"
  stdout_bytes :: string
  stderr_bytes :: string
  Wait_err :: "go_error option"

datatype FileInfo = FileInfo (IsDir: bool)

text \<open>Everything outside the file that its functions consult. \<open>lookPath\<close> (another file
  of package \<open>shell\<close>) and \<open>process.FormatCommand\<close> are functions of the repository that
  this file only calls; they are parameters here, like the operating system's answers.
  Time is counted in nanoseconds; \<open>TryLock path t\<close> is the result of \<open>lock.TryLock()\<close> on
  the lock file \<open>path\<close> at time \<open>t\<close>.\<close>

record World =
  os_Getwd :: "go_error + string"
  os_Environ :: "string list"
  os_Stat :: "string \<Rightarrow> go_error + FileInfo"
  lookPath :: "string \<Rightarrow> string \<Rightarrow> string \<Rightarrow> go_error + string"
  exec_LookPath :: "string \<Rightarrow> go_error + string"
  FormatCommand :: "string \<Rightarrow> string list \<Rightarrow> string"
  launch :: "Cmd \<Rightarrow> Process"
  time_Now :: int
  TryLock :: "string \<Rightarrow> int \<Rightarrow> go_error option"

text \<open>A \<open>context.Context\<close>: \<open>None\<close> is never done (\<open>context.Background()\<close>),
  \<open>Some (t, e)\<close> is done from time \<open>t\<close> on, with \<open>Err() = e\<close>.\<close>

type_synonym Context = "(int \<times> go_error) option"

text \<open>The struct \<open>Shell\<close>. \<open>Writer\<close> holds the bytes written so far to the
  \<open>io.Writer\<close> the field refers to. The embedded \<open>Logger\<close> is an interface implemented
  outside the file; its calls (\<open>Commentf\<close>, \<open>Promptf\<close>, \<open>Errorf\<close>, \<open>Printf\<close>) return
  nothing and are not recorded.\<close>

record Shell =
  Env :: Environment
  PTY :: bool
  Writer :: string
  Debug :: bool
  wd :: string
  ctx :: Context

definition New :: "World \<Rightarrow> go_error + Shell" where
  "New world =
     (case os_Getwd world of
        Inl err \<Rightarrow>
          Inl (withStack (withMessage err ''Failed to find current working directory'' []))
      | Inr dir \<Rightarrow>
          Inr \<lparr>Env = FromSlice (os_Environ world), PTY = False, Writer = [], Debug = False,
               wd = dir, ctx = None\<rparr>)"

definition NewWithContext :: "World \<Rightarrow> Context \<Rightarrow> go_error + Shell" where
  "NewWithContext world c =
     (case New world of
        Inl err \<Rightarrow> Inl err
      | Inr sh \<Rightarrow> Inr (sh\<lparr>ctx := c\<rparr>))"

definition Getwd :: "Shell \<Rightarrow> string" where
  "Getwd s = wd s"

text \<open>\<open>Chdir\<close> returns the shell as the call leaves it, and the error.\<close>

definition Chdir :: "World \<Rightarrow> Shell \<Rightarrow> string \<Rightarrow> Shell \<times> go_error option" where
  "Chdir world s path =
     (let path' = (if \<not> filepath_IsAbs path then filepath_Join (wd s) path else path)
      in case os_Stat world path' of
           Inl err \<Rightarrow>
             (s, Some (Errorf ''Failed to change working: directory does not exist'' [] None))
         | Inr info \<Rightarrow> (s\<lparr>wd := path'\<rparr>, None))"

text \<open>\<open>filepath.Abs\<close> on Unix: an absolute path is cleaned, any other is joined to the
  current directory of the process.\<close>

definition filepath_Abs :: "World \<Rightarrow> string \<Rightarrow> go_error + string" where
  "filepath_Abs world p =
     (if filepath_IsAbs p then Inr (filepath_Clean p)
      else case os_Getwd world of
             Inl err \<Rightarrow> Inl err
           | Inr dir \<Rightarrow> Inr (filepath_Join dir p))"

definition AbsolutePath :: "World \<Rightarrow> Shell \<Rightarrow> string \<Rightarrow> go_error + string" where
  "AbsolutePath world s executable =
     (if path_IsAbs executable then Inr executable
      else
        (let envPath = fst (Env_Get (Env s) ''PATH'');
             fileExtensions = fst (Env_Get (Env s) ''PATHEXT'')
         in case lookPath world executable envPath fileExtensions of
              Inl err \<Rightarrow> Inl err
            | Inr absolutePath \<Rightarrow> filepath_Abs world absolutePath))"

text \<open>\<open>exec.Command\<close>: \<open>Path\<close> is the name and \<open>Args\<close> the name followed by the
  arguments; a name without a directory part is looked up with \<open>exec.LookPath\<close>.\<close>

definition exec_Command :: "World \<Rightarrow> string \<Rightarrow> string list \<Rightarrow> Cmd" where
  "exec_Command world name arg =
     (let cmd = \<lparr>Path = name, Args = name # arg, Cmd_Env = [], Dir = [], Cmd_Stdout = None,
                 Cmd_Stderr = None, Cmd_Stdin = None, lookPathErr = None\<rparr>
      in if filepath_Base name = name then
           (case exec_LookPath world name of
              Inl err \<Rightarrow> cmd\<lparr>lookPathErr := Some err\<rparr>
            | Inr lp \<Rightarrow> cmd\<lparr>Path := lp\<rparr>)
         else cmd)"

definition buildCommand :: "World \<Rightarrow> Shell \<Rightarrow> string \<Rightarrow> string list \<Rightarrow> go_error + Cmd" where
  "buildCommand world s name arg =
     (case AbsolutePath world s name of
        Inl err \<Rightarrow> Inl err
      | Inr absPath \<Rightarrow>
          Inr ((exec_Command world absPath arg)\<lparr>Cmd_Env := ToSlice (Env s), Dir := wd s\<rparr>))"

section \<open>Running a command\<close>

record executeFlags =
  flag_Stdout :: bool
  flag_Stderr :: bool
  flag_PTY :: bool

text \<open>The calls \<open>executeCommand\<close> makes to start, read and reap the child, in order.\<close>

datatype call = Call_StartPTY | Call_Copy | Call_Start | Call_Wait

text \<open>What a call of \<open>executeCommand\<close> leaves behind: the error it returns, the content
  of \<open>w\<close>, the \<open>*exec.Cmd\<close> as the call has wired it, and the calls made.\<close>

record Executed =
  err :: "go_error option"
  sink :: string
  cmd_after :: Cmd
  calls :: "call list"

text \<open>A slice expression out of range panics.\<close>

datatype 'a outcome = Panics | Returns 'a

text \<open>The bytes of a stream that reach \<open>w\<close> through a writer. (A \<open>MultiWriter\<close> writes
  chunk by chunk; with at most one \<open>w\<close> in it, as in every wiring below, the chunks arrive
  at \<open>w\<close> as the stream.)\<close>

fun to_W :: "Writer \<Rightarrow> string \<Rightarrow> string" where
  "to_W W b = b"
| "to_W LoggerStreamer b = []"
| "to_W (MultiWriter ws) b = concat (map (\<lambda>x. to_W x b) ws)"

definition delivered :: "Writer option \<Rightarrow> string \<Rightarrow> string" where
  "delivered wr b = (case wr of None \<Rightarrow> [] | Some x \<Rightarrow> to_W x b)"

text \<open>The test \<open>e, ok := err.(*os.PathError); ok && e.Err == syscall.EIO\<close>.\<close>

definition is_PathError_EIO :: "go_error option \<Rightarrow> bool" where
  "is_PathError_EIO e = (case e of Some (PathError op path cause) \<Rightarrow> cause = EIO | _ \<Rightarrow> False)"

text \<open>\<open>executeCommand\<close>. The goroutine that forwards signals to the child runs beside the
  call and is not part of its result. \<open>cmd.Args[1:]\<close> panics on an empty \<open>Args\<close>. In PTY
  mode the \<open>if\<close> on the error of \<open>io.Copy\<close> has an empty body and no \<open>else\<close>: both ways
  lead to \<open>cmd.Wait()\<close>.\<close>

definition executeCommand ::
  "World \<Rightarrow> Shell \<Rightarrow> Cmd \<Rightarrow> string \<Rightarrow> executeFlags \<Rightarrow> Executed outcome" where
  "executeCommand world s cmd w flags =
     (case Args cmd of
        [] \<Rightarrow> Panics
      | arg0 # rest \<Rightarrow>
          (let cmdStr = FormatCommand world (Path cmd) rest;
               started =
                 (if flag_PTY flags then
                    (let p = launch world cmd
                     in case StartPTY_err p of
                          Some e \<Rightarrow>
                            Inl \<lparr>err = Some (Errorf ''Error starting PTY: %v'' [] (Some e)),
                                 sink = w, cmd_after = cmd, calls = [Call_StartPTY]\<rparr>
                        | None \<Rightarrow>
                            (if is_PathError_EIO (Copy_err p)
                             then Inr (p, w @ pty_bytes p, cmd, [Call_StartPTY, Call_Copy])
                             else Inr (p, w @ pty_bytes p, cmd, [Call_StartPTY, Call_Copy])))
                  else
                    (let cmd1 = cmd\<lparr>Cmd_Stdout := Some W, Cmd_Stderr := None, Cmd_Stdin := None\<rparr>;
                         cmd2 = (if Debug s
                                 then cmd1\<lparr>Cmd_Stdout := Some (MultiWriter [LoggerStreamer, W]),
                                           Cmd_Stderr := Some LoggerStreamer\<rparr>
                                 else cmd1);
                         p = launch world cmd2
                     in case Start_err p of
                          Some e \<Rightarrow>
                            Inl \<lparr>err = errors_Wrapf (Some e) ''Error starting `%s`'' [cmdStr],
                                 sink = w, cmd_after = cmd2, calls = [Call_Start]\<rparr>
                        | None \<Rightarrow>
                            Inr (p,
                                 w @ delivered (Cmd_Stdout cmd2) (stdout_bytes p)
                                   @ delivered (Cmd_Stderr cmd2) (stderr_bytes p),
                                 cmd2, [Call_Start])))
           in Returns
                (case started of
                   Inl r \<Rightarrow> r
                 | Inr (p, w', cmd', cs) \<Rightarrow>
                     (case Wait_err p of
                        Some e \<Rightarrow>
                          \<lparr>err = errors_Wrapf (Some e) ''Error running `%s`'' [cmdStr],
                           sink = w', cmd_after = cmd', calls = cs @ [Call_Wait]\<rparr>
                      | None \<Rightarrow>
                          \<lparr>err = None, sink = w', cmd_after = cmd', calls = cs @ [Call_Wait]\<rparr>))))"

text \<open>\<open>Run\<close> returns the shell, with what the command wrote to \<open>s.Writer\<close>, and the error.\<close>

definition Run :: "World \<Rightarrow> Shell \<Rightarrow> string \<Rightarrow> string list \<Rightarrow> (Shell \<times> go_error option) outcome" where
  "Run world s command arg =
     (case buildCommand world s command arg of
        Inl e \<Rightarrow> Returns (s, Some e)
      | Inr cmd \<Rightarrow>
          (case executeCommand world s cmd (Writer s)
                  \<lparr>flag_Stdout = True, flag_Stderr = True, flag_PTY = PTY s\<rparr> of
             Panics \<Rightarrow> Panics
           | Returns r \<Rightarrow> Returns (s\<lparr>Writer := sink r\<rparr>, err r)))"

subsection \<open>\<open>strings.TrimSpace\<close>\<close>

text \<open>\<open>strings.TrimSpace\<close> is \<open>TrimFunc(s, unicode.IsSpace)\<close>, that is
  \<open>TrimRightFunc(TrimLeftFunc(s, f), f)\<close>, on the UTF-8 bytes of the string. The runes of
  \<open>unicode.IsSpace\<close> are U+0009 to U+000D, U+0020, U+0085, U+00A0, U+1680, U+2000 to
  U+200A, U+2028, U+2029, U+202F, U+205F and U+3000; these are their encodings. A byte
  sequence that decodes to \<open>RuneError\<close> is not a space, so trimming on the left removes
  leading encodings and trimming on the right removes trailing ones.\<close>

definition space_encodings :: "string list" where
  "space_encodings =
     [[CHR 0x09], [CHR 0x0A], [CHR 0x0B], [CHR 0x0C], [CHR 0x0D], [CHR 0x20],
      [CHR 0xC2, CHR 0x85], [CHR 0xC2, CHR 0xA0],
      [CHR 0xE1, CHR 0x9A, CHR 0x80],
      [CHR 0xE2, CHR 0x80, CHR 0x80], [CHR 0xE2, CHR 0x80, CHR 0x81],
      [CHR 0xE2, CHR 0x80, CHR 0x82], [CHR 0xE2, CHR 0x80, CHR 0x83],
      [CHR 0xE2, CHR 0x80, CHR 0x84], [CHR 0xE2, CHR 0x80, CHR 0x85],
      [CHR 0xE2, CHR 0x80, CHR 0x86], [CHR 0xE2, CHR 0x80, CHR 0x87],
      [CHR 0xE2, CHR 0x80, CHR 0x88], [CHR 0xE2, CHR 0x80, CHR 0x89],
      [CHR 0xE2, CHR 0x80, CHR 0x8A],
      [CHR 0xE2, CHR 0x80, CHR 0xA8], [CHR 0xE2, CHR 0x80, CHR 0xA9],
      [CHR 0xE2, CHR 0x80, CHR 0xAF], [CHR 0xE2, CHR 0x81, CHR 0x9F],
      [CHR 0xE3, CHR 0x80, CHR 0x80]]"

lemma space_encodings_nonempty: "e \<in> set space_encodings \<Longrightarrow> 0 < length e"
  by (auto simp: space_encodings_def)

lemma find_space_encoding:
  "find P space_encodings = Some e \<Longrightarrow> 0 < length e \<and> P e"
proof -
  assume "find P space_encodings = Some e"
  then obtain i where "i < length space_encodings" and "P (space_encodings ! i)"
    and "e = space_encodings ! i"
    by (auto simp: find_Some_iff)
  then have "e \<in> set space_encodings" and "P e"
    by simp_all
  then show ?thesis
    using space_encodings_nonempty [of e] by blast
qed

function TrimLeft_space :: "string \<Rightarrow> string" where
  "TrimLeft_space s =
     (case find (\<lambda>e. prefix e s) space_encodings of
        None \<Rightarrow> s
      | Some e \<Rightarrow> TrimLeft_space (drop (length e) s))"
  by pat_completeness auto
termination
proof (relation "measure length")
  fix s e
  assume "find (\<lambda>e. prefix e s) space_encodings = Some e"
  then have "0 < length e" and "prefix e s"
    using find_space_encoding [of "\<lambda>e. prefix e s" e] by simp_all
  then have "0 < length s"
    by (auto simp: prefix_def)
  with \<open>0 < length e\<close> show "(drop (length e) s, s) \<in> measure length"
    by simp
qed simp

declare TrimLeft_space.simps [simp del]

function TrimRight_space :: "string \<Rightarrow> string" where
  "TrimRight_space s =
     (case find (\<lambda>e. suffix e s) space_encodings of
        None \<Rightarrow> s
      | Some e \<Rightarrow> TrimRight_space (take (length s - length e) s))"
  by pat_completeness auto
termination
proof (relation "measure length")
  fix s e
  assume "find (\<lambda>e. suffix e s) space_encodings = Some e"
  then have "0 < length e" and "suffix e s"
    using find_space_encoding [of "\<lambda>e. suffix e s" e] by simp_all
  then have "0 < length s"
    by (auto simp: suffix_def)
  with \<open>0 < length e\<close> show "(take (length s - length e) s, s) \<in> measure length"
    by simp
qed simp

declare TrimRight_space.simps [simp del]

definition TrimSpace :: "string \<Rightarrow> string" where
  "TrimSpace s = TrimRight_space (TrimLeft_space s)"

text \<open>A string made of space runes only.\<close>

definition spaces :: "string \<Rightarrow> bool" where
  "spaces l \<longleftrightarrow> (\<exists>es. set es \<subseteq> set space_encodings \<and> l = concat es)"

subsection \<open>\<open>RunAndCapture\<close>\<close>

text \<open>\<open>RunAndCapture\<close> returns the captured text and the error; \<open>execution\<close> is the call
  of \<open>executeCommand\<close> it made on its local buffer, when it came to make one.\<close>

record Captured =
  captured :: string
  capture_err :: "go_error option"
  execution :: "Executed option"

definition RunAndCapture :: "World \<Rightarrow> Shell \<Rightarrow> string \<Rightarrow> string list \<Rightarrow> Captured outcome" where
  "RunAndCapture world s command arg =
     (case buildCommand world s command arg of
        Inl e \<Rightarrow> Returns \<lparr>captured = [], capture_err = Some e, execution = None\<rparr>
      | Inr cmd \<Rightarrow>
          (case executeCommand world s cmd []
                  \<lparr>flag_Stdout = True, flag_Stderr = False, flag_PTY = False\<rparr> of
             Panics \<Rightarrow> Panics
           | Returns r \<Rightarrow>
               (case err r of
                  Some e \<Rightarrow> Returns \<lparr>captured = [], capture_err = Some e, execution = Some r\<rparr>
                | None \<Rightarrow>
                    Returns \<lparr>captured = TrimSpace (sink r), capture_err = None,
                             execution = Some r\<rparr>)))"

section \<open>The lock file\<close>

text \<open>\<open>lockRetryDuration = time.Second\<close>, in nanoseconds.\<close>

definition lockRetryDuration :: int where
  "lockRetryDuration = 1000000000"

text \<open>\<open>lockfile.New\<close> of \<open>github.com/nightlyone/lockfile\<close>: the path must be absolute, and
  the lock is its path.\<close>

definition lockfile_New :: "string \<Rightarrow> go_error + string" where
  "lockfile_New path = (if \<not> filepath_IsAbs path then Inl ErrNeedAbsPath else Inr path)"

text \<open>\<open>context.WithTimeout(parent, timeout)\<close> called at time \<open>now\<close>: the time from which
  the new context is done, and its \<open>Err()\<close> from then on. It is done when the parent is
  done, with the parent's error, or when the deadline \<open>now + timeout\<close> is reached, with
  \<open>DeadlineExceeded\<close>, whichever comes first; a parent that is already done wins.\<close>

definition WithTimeout :: "Context \<Rightarrow> int \<Rightarrow> int \<Rightarrow> int \<times> go_error" where
  "WithTimeout parent now timeout =
     (case parent of
        None \<Rightarrow> (now + timeout, DeadlineExceeded)
      | Some (t, e) \<Rightarrow>
          if t \<le> now \<or> t \<le> now + timeout then (t, e) else (now + timeout, DeadlineExceeded))"

text \<open>\<open>ctx.Err()\<close> at time \<open>t\<close>; it is not \<open>nil\<close> exactly when \<open>ctx.Done()\<close> is closed.\<close>

definition ctx_Err :: "int \<times> go_error \<Rightarrow> int \<Rightarrow> go_error option" where
  "ctx_Err c t = (if fst c \<le> t then Some (snd c) else None)"

text \<open>The \<open>for\<close> loop of \<open>LockFile\<close>, entered at time \<open>t\<close>. \<open>TryLock\<close> and the logging take
  no time and \<open>time.Sleep\<close> takes exactly \<open>lockRetryDuration\<close>. The loop returns the error
  it ends with (\<open>None\<close> when it was left by \<open>break\<close>), the time at which it ends, and the
  times at which \<open>TryLock\<close> was called.\<close>

function lock_loop ::
  "(int \<Rightarrow> go_error option) \<Rightarrow> int \<times> go_error \<Rightarrow> int \<Rightarrow> int list
     \<Rightarrow> go_error option \<times> int \<times> int list" where
  "lock_loop try c t tried =
     (if try t \<noteq> None then
        (if ctx_Err c (t + lockRetryDuration) \<noteq> None
         then (ctx_Err c (t + lockRetryDuration), t + lockRetryDuration, tried @ [t])
         else lock_loop try c (t + lockRetryDuration) (tried @ [t]))
      else (None, t, tried @ [t]))"
  by pat_completeness auto
termination
  by (relation "measure (\<lambda>(try, c, t, tried). nat (fst c - t))")
     (auto simp: ctx_Err_def lockRetryDuration_def split: if_splits)

declare lock_loop.simps [simp del]

record Locked =
  lock_result :: "go_error + string"
  returned_at :: int
  attempts :: "int list"

definition LockFile :: "World \<Rightarrow> Shell \<Rightarrow> string \<Rightarrow> int \<Rightarrow> Locked" where
  "LockFile world s path timeout =
     (case filepath_Abs world path of
        Inl e \<Rightarrow>
          \<lparr>lock_result =
             Inl (Errorf ''Failed to find absolute path to lock \"%s\" (%v)'' [path] (Some e)),
           returned_at = time_Now world, attempts = []\<rparr>
      | Inr absolutePathToLock \<Rightarrow>
          (case lockfile_New absolutePathToLock of
             Inl e \<Rightarrow>
               \<lparr>lock_result =
                  Inl (Errorf ''Failed to create lock \"%s\" (%s)'' [absolutePathToLock] (Some e)),
                returned_at = time_Now world, attempts = []\<rparr>
           | Inr lock \<Rightarrow>
               (case lock_loop (TryLock world lock)
                       (WithTimeout (ctx s) (time_Now world) timeout) (time_Now world) [] of
                  (None, t, tried) \<Rightarrow>
                    \<lparr>lock_result = Inr lock, returned_at = t, attempts = tried\<rparr>
                | (Some e, t, tried) \<Rightarrow>
                    \<lparr>lock_result = Inl e, returned_at = t, attempts = tried\<rparr>)))"

section \<open>Shells and descriptors as objects\<close>

text \<open>The methods have the receiver \<open>*Shell\<close>, the field \<open>Env\<close> of a shell is a
  \<open>*env.Environment\<close>, \<open>buildCommand\<close> returns an \<open>*exec.Cmd\<close>, and the field \<open>Env\<close> of
  an \<open>exec.Cmd\<close> is a slice: all four are references. To follow what a later call can
  change, the objects are kept in a store, by address: the shells, the environments,
  the commands, and the arrays behind the slices. A \<open>string\<close> is a value in Go and stays
  one here.\<close>

record Shell_object =
  Env_pointer :: nat
  obj_PTY :: bool
  obj_Writer :: string
  obj_Debug :: bool
  obj_wd :: string
  obj_ctx :: Context

record Cmd_object =
  obj_Path :: string
  obj_Args :: "string list"
  Env_slice :: nat
  obj_Dir :: string
  obj_Stdout :: "Writer option"
  obj_Stderr :: "Writer option"
  obj_Stdin :: "Reader option"
  obj_lookPathErr :: "go_error option"

text \<open>\<open>next_cmd\<close> and \<open>next_slice\<close> are the addresses the next allocations get.\<close>

record Store =
  shell_at :: "nat \<Rightarrow> Shell_object"
  env_at :: "nat \<Rightarrow> Environment"
  cmd_at :: "nat \<Rightarrow> Cmd_object"
  slice_at :: "nat \<Rightarrow> string list"
  next_cmd :: nat
  next_slice :: nat

text \<open>The shell and the command at an address, as the functions of the sections above
  take them: with the environment and the slice read through their references.\<close>

definition load_Shell :: "Store \<Rightarrow> nat \<Rightarrow> Shell" where
  "load_Shell st s =
     \<lparr>Env = env_at st (Env_pointer (shell_at st s)), PTY = obj_PTY (shell_at st s),
      Writer = obj_Writer (shell_at st s), Debug = obj_Debug (shell_at st s),
      wd = obj_wd (shell_at st s), ctx = obj_ctx (shell_at st s)\<rparr>"

definition load_Cmd :: "Store \<Rightarrow> nat \<Rightarrow> Cmd" where
  "load_Cmd st cmd =
     \<lparr>Path = obj_Path (cmd_at st cmd), Args = obj_Args (cmd_at st cmd),
      Cmd_Env = slice_at st (Env_slice (cmd_at st cmd)), Dir = obj_Dir (cmd_at st cmd),
      Cmd_Stdout = obj_Stdout (cmd_at st cmd), Cmd_Stderr = obj_Stderr (cmd_at st cmd),
      Cmd_Stdin = obj_Stdin (cmd_at st cmd), lookPathErr = obj_lookPathErr (cmd_at st cmd)\<rparr>"

text \<open>\<open>Chdir\<close> on the store: the assignment \<open>s.wd = path\<close> writes the shell object.\<close>

definition store_Chdir :: "World \<Rightarrow> Store \<Rightarrow> nat \<Rightarrow> string \<Rightarrow> Store \<times> go_error option" where
  "store_Chdir world st s path =
     (let path' = (if \<not> filepath_IsAbs path
                   then filepath_Join (obj_wd (shell_at st s)) path else path)
      in case os_Stat world path' of
           Inl e \<Rightarrow>
             (st, Some (Errorf ''Failed to change working: directory does not exist'' [] None))
         | Inr info \<Rightarrow>
             (st\<lparr>shell_at := (shell_at st)(s := (shell_at st s)\<lparr>obj_wd := path'\<rparr>)\<rparr>, None))"

text \<open>\<open>buildCommand\<close> on the store: \<open>exec.Command\<close> allocates the command,
  \<open>s.Env.ToSlice()\<close> allocates a slice and fills it from the environment the shell points
  to, and the two assignments store the slice and the working directory of the shell in
  the new command. It returns the address of the command.\<close>

definition store_buildCommand ::
  "World \<Rightarrow> Store \<Rightarrow> nat \<Rightarrow> string \<Rightarrow> string list \<Rightarrow> Store \<times> (go_error + nat)" where
  "store_buildCommand world st s name arg =
     (case AbsolutePath world (load_Shell st s) name of
        Inl e \<Rightarrow> (st, Inl e)
      | Inr absPath \<Rightarrow>
          (let made = exec_Command world absPath arg;
               cmd = next_cmd st;
               slice = next_slice st
           in (st\<lparr>cmd_at := (cmd_at st)
                      (cmd := \<lparr>obj_Path = Path made, obj_Args = Args made, Env_slice = slice,
                               obj_Dir = obj_wd (shell_at st s), obj_Stdout = Cmd_Stdout made,
                               obj_Stderr = Cmd_Stderr made, obj_Stdin = Cmd_Stdin made,
                               obj_lookPathErr = lookPathErr made\<rparr>),
                   slice_at := (slice_at st)
                      (slice := ToSlice (env_at st (Env_pointer (shell_at st s)))),
                   next_cmd := Suc cmd, next_slice := Suc slice\<rparr>,
               Inr cmd)))"

text \<open>Changes of the environment of a shell: \<open>s.Env.Set(key, value)\<close> writes the
  environment object the shell points to, and \<open>s.Env = e\<close> writes the shell object.\<close>

definition store_Env_Set :: "Store \<Rightarrow> nat \<Rightarrow> string \<Rightarrow> string \<Rightarrow> Store" where
  "store_Env_Set st s key v =
     st\<lparr>env_at := (env_at st)
           (Env_pointer (shell_at st s) := Env_Set key v (env_at st (Env_pointer (shell_at st s))))\<rparr>"

definition store_Env_assign :: "Store \<Rightarrow> nat \<Rightarrow> nat \<Rightarrow> Store" where
  "store_Env_assign st s e = st\<lparr>shell_at := (shell_at st)(s := (shell_at st s)\<lparr>Env_pointer := e\<rparr>)\<rparr>"

text \<open>What a caller can do to its shells between the building of a descriptor and its
  use.\<close>

datatype step = Step_Chdir nat string | Step_Env_Set nat string string | Step_Env_assign nat nat
  | Step_buildCommand nat string "string list"

fun do_step :: "World \<Rightarrow> Store \<Rightarrow> step \<Rightarrow> Store" where
  "do_step world st (Step_Chdir s path) = fst (store_Chdir world st s path)"
| "do_step world st (Step_Env_Set s key v) = store_Env_Set st s key v"
| "do_step world st (Step_Env_assign s e) = store_Env_assign st s e"
| "do_step world st (Step_buildCommand s name arg) = fst (store_buildCommand world st s name arg)"

definition do_steps :: "World \<Rightarrow> Store \<Rightarrow> step list \<Rightarrow> Store" where
  "do_steps world st steps = foldl (do_step world) st steps"

section \<open>Examples\<close>

text \<open>A small machine: a few directories and files, \<open>/bin\<close> on the search path, a lock
  file that another process holds for good and others that are free from 2.5 seconds
  on. The process that every launch gives is a parameter.\<close>

definition example_world :: "Process \<Rightarrow> World" where
  "example_world p =
     \<lparr>os_Getwd = Inr ''/home/agent'', os_Environ = [''PATH=/bin''],
      os_Stat = (\<lambda>path.
        if path \<in> {''/'', ''/home'', ''/home/agent'', ''/home/agent/builds'', ''/bin''}
        then Inr (FileInfo True)
        else if path \<in> {''/bin/echo'', ''/bin/false'', ''/etc/hosts''}
        then Inr (FileInfo False)
        else Inl (PathError ''stat'' path (Errno 2))),
      lookPath = (\<lambda>file path exts.
        if path = ''/bin'' \<and> file \<in> {''echo'', ''false''} then Inr (''/bin/'' @ file)
        else Inl (ExecError file (Errorf ''executable file not found in $PATH'' [] None))),
      exec_LookPath = (\<lambda>file.
        Inl (ExecError file (Errorf ''executable file not found in $PATH'' [] None))),
      FormatCommand = (\<lambda>command args. command),
      launch = (\<lambda>cmd. p),
      time_Now = 0,
      TryLock = (\<lambda>path t.
        if path = ''/var/lock/held'' \<or> t < 2500000000 then Some ErrBusy else None)\<rparr>"

definition example_shell :: Shell where
  "example_shell = \<lparr>Env = [(''PATH'', ''/bin'')], PTY = False, Writer = [], Debug = False,
                     wd = ''/home/agent'', ctx = None\<rparr>"

definition example_cmd :: "string \<Rightarrow> Cmd" where
  "example_cmd name =
     \<lparr>Path = name, Args = [name], Cmd_Env = [''PATH=/bin''], Dir = ''/home/agent'',
      Cmd_Stdout = None, Cmd_Stderr = None, Cmd_Stdin = None, lookPathErr = None\<rparr>"

text \<open>A child that exits with status 3.\<close>

definition failing_process :: Process where
  "failing_process =
     \<lparr>StartPTY_err = None, pty_bytes = [], Copy_err = None, Start_err = None,
      stdout_bytes = [], stderr_bytes = [], Wait_err = Some (ExitError (WaitStatus 0x300))\<rparr>"

text \<open>A child that cannot be started, with or without a terminal.\<close>

definition unstartable_process :: Process where
  "unstartable_process =
     \<lparr>StartPTY_err = Some (PathError ''open'' ''/dev/ptmx'' (Errno 2)), pty_bytes = [],
      Copy_err = None,
      Start_err = Some (PathError ''fork/exec'' ''/bin/missing'' (Errno 2)),
      stdout_bytes = [], stderr_bytes = [], Wait_err = None\<rparr>"

text \<open>A terminal whose copy to the output fails with a broken pipe.\<close>

definition broken_pipe_process :: Process where
  "broken_pipe_process =
     \<lparr>StartPTY_err = None, pty_bytes = ''partial'',
      Copy_err = Some (PathError ''write'' ''/dev/stdout'' (Errno 32)), Start_err = None,
      stdout_bytes = [], stderr_bytes = [], Wait_err = None\<rparr>"

text \<open>A child that writes to both of its output streams.\<close>

definition noisy_process :: Process where
  "noisy_process =
     \<lparr>StartPTY_err = None, pty_bytes = [], Copy_err = None, Start_err = None,
      stdout_bytes = ''out'', stderr_bytes = ''warning'', Wait_err = None\<rparr>"

text \<open>The child of \<open>echo hello\<close>, which also complains on its standard error.\<close>

definition echo_process :: Process where
  "echo_process =
     \<lparr>StartPTY_err = None, pty_bytes = [], Copy_err = None, Start_err = None,
      stdout_bytes = ''hello'' @ [CHR 0x0A], stderr_bytes = ''warning'', Wait_err = None\<rparr>"

text \<open>A store with one shell, at address 0, in which nothing has been built yet.\<close>

definition example_store :: Store where
  "example_store =
     \<lparr>shell_at = (\<lambda>a. \<lparr>Env_pointer = 0, obj_PTY = False, obj_Writer = [], obj_Debug = False,
                        obj_wd = ''/home/agent'', obj_ctx = None\<rparr>),
      env_at = (\<lambda>a. [(''PATH'', ''/bin'')]),
      cmd_at = (\<lambda>a. \<lparr>obj_Path = [], obj_Args = [], Env_slice = 0, obj_Dir = [],
                      obj_Stdout = None, obj_Stderr = None, obj_Stdin = None,
                      obj_lookPathErr = None\<rparr>),
      slice_at = (\<lambda>a. []),
      next_cmd = 0, next_slice = 0\<rparr>"

text \<open>The same machine three seconds later, when the free lock files are free.\<close>

definition late_world :: World where
  "late_world = (example_world failing_process)\<lparr>time_Now := 3000000000\<rparr>"

text \<open>A Windows machine and the name of a file that does not exist on it: drive \<open>C:\<close>,
  directory \<open>tools\<close>, file \<open>build.exe\<close>, with backslashes between them. The \<open>lookPath\<close>
  of the machine fails for every name and reports the search list and the extensions it
  was given.\<close>

definition windows_name :: string where
  "windows_name = ''C:'' @ [CHR 0x5C] @ ''tools'' @ [CHR 0x5C] @ ''build.exe''"

definition windows_shell :: Shell where
  "windows_shell =
     \<lparr>Env = [(''PATH'', ''C:'' @ [CHR 0x5C] @ ''Windows''), (''PATHEXT'', ''.COM;.EXE;.BAT'')],
      PTY = False, Writer = [], Debug = False, wd = ''C:'' @ [CHR 0x5C] @ ''agent'', ctx = None\<rparr>"

definition windows_world :: World where
  "windows_world =
     \<lparr>os_Getwd = Inr (''C:'' @ [CHR 0x5C] @ ''agent''), os_Environ = [],
      os_Stat = (\<lambda>path. Inl (PathError ''CreateFile'' path (Errno 2))),
      lookPath = (\<lambda>file path exts.
        Inl (ExecError file (Errorf ''file does not exist; searched %s with %s'' [path, exts] None))),
      exec_LookPath = (\<lambda>file. Inl (ExecError file (Errorf ''file does not exist'' [] None))),
      FormatCommand = (\<lambda>command args. command),
      launch = (\<lambda>cmd. unstartable_process),
      time_Now = 0,
      TryLock = (\<lambda>path t. None)\<rparr>"

section \<open>Exit codes of errors\<close>

lemma ExitStatus_exited:
  fixes c :: "32 word"
  assumes "c \<le> 255"
  shows "ExitStatus (push_bit 8 c) = uint c"
proof -
  have low: "push_bit 8 c AND 127 = 0"
  proof -
    have m7: "(127::32 word) = mask 7"
      by (simp add: mask_eq_exp_minus_1)
    show ?thesis
      unfolding m7 by (rule bit_word_eqI) (auto simp: bit_simps)
  qed
  from assms have "c < 2 ^ 8"
    by (simp add: word_less_nat_alt word_le_nat_alt)
  then have "take_bit 8 c = c"
    using less_mask_eq [of c 8] by (simp add: take_bit_eq_mask)
  then have small: "bit c n \<Longrightarrow> n < 8" for n
    by (metis bit_take_bit_iff)
  have m8: "(255::32 word) = mask 8"
    by (simp add: mask_eq_exp_minus_1)
  have "drop_bit 8 (push_bit 8 c) AND 255 = c"
    unfolding m8 by (rule bit_word_eqI) (auto simp: bit_simps dest: small)
  moreover have "uint (drop_bit 8 (push_bit 8 c)) AND 255 = uint (drop_bit 8 (push_bit 8 c) AND 255)"
    by (simp add: uint_and)
  ultimately show ?thesis
    by (simp add: ExitStatus_def Exited_def low)
qed

lemma GetExitCode_cause_status:
  "errors_Cause e = ExitError (WaitStatus status) \<Longrightarrow> GetExitCode (Some e) = ExitStatus status"
  by (simp add: GetExitCode_def)

lemma GetExitCode_no_status:
  "(\<forall>status. errors_Cause e \<noteq> ExitError (WaitStatus status)) \<Longrightarrow> GetExitCode (Some e) = 1"
  by (auto simp: GetExitCode_def split: go_error.splits sys_value.splits)

lemma executeCommand_after_Wait:
  assumes "executeCommand world s cmd w flags = Returns r" and "Call_Wait \<in> set (calls r)"
  shows "err r = errors_Wrapf (Wait_err (launch world (cmd_after r))) ''Error running `%s`''
                   [FormatCommand world (Path cmd) (tl (Args cmd))]"
  using assms
  by (auto simp: executeCommand_def Let_def errors_Wrapf_def
           split: list.splits if_splits option.splits)

lemma executeCommand_StartPTY_fails:
  assumes "executeCommand world s cmd w flags = Returns r" and "flag_PTY flags"
    and "StartPTY_err (launch world cmd) = Some e"
  shows "err r = Some (Errorf ''Error starting PTY: %v'' [] (Some e))"
  using assms
  by (auto simp: executeCommand_def Let_def split: list.splits)

lemma executeCommand_Start_fails:
  assumes "executeCommand world s cmd w flags = Returns r" and "\<not> flag_PTY flags"
    and "Start_err (launch world (cmd_after r)) = Some e"
  shows "err r = errors_Wrapf (Some e) ''Error starting `%s`''
                   [FormatCommand world (Path cmd) (tl (Args cmd))]"
  using assms
  by (auto simp: executeCommand_def Let_def split: list.splits if_splits option.splits)

text \<open>C3. \<open>GetExitCode\<close> returns 0 for \<open>nil\<close>. For an error whose cause, under the wrapping
  of \<open>errors.Wrapf\<close>, is an \<open>*exec.ExitError\<close> with a \<open>syscall.WaitStatus\<close>, it returns the
  exit status of that wait status; the wait status of a process that exited with code
  \<open>c\<close> (at most 255) is \<open>c\<close> shifted left by 8, and its exit status is \<open>c\<close>. So the error
  that \<open>executeCommand\<close> returns after \<open>cmd.Wait()\<close> failed with such an exit error
  translates to the exit status. Any other error that is not \<open>nil\<close> gives 1.\<close>

theorem GetExitCode_exit_status:
  "GetExitCode None = 0 \<and>
   (\<forall>e status. errors_Cause e = ExitError (WaitStatus status) \<longrightarrow>
      GetExitCode (Some e) = ExitStatus status) \<and>
   (\<forall>c. c \<le> 255 \<longrightarrow> ExitStatus (push_bit 8 c) = uint c) \<and>
   (\<forall>world s cmd w flags r status.
      executeCommand world s cmd w flags = Returns r \<and> Call_Wait \<in> set (calls r) \<and>
      Wait_err (launch world (cmd_after r)) = Some (ExitError (WaitStatus status)) \<longrightarrow>
      GetExitCode (err r) = ExitStatus status) \<and>
   (\<forall>e. (\<forall>status. errors_Cause e \<noteq> ExitError (WaitStatus status)) \<longrightarrow>
      GetExitCode (Some e) = 1)"
proof (intro conjI allI impI)
  show "GetExitCode None = 0"
    by (simp add: GetExitCode_def)
next
  fix e status
  assume "errors_Cause e = ExitError (WaitStatus status)"
  then show "GetExitCode (Some e) = ExitStatus status"
    by (rule GetExitCode_cause_status)
next
  fix c :: "32 word"
  assume "c \<le> 255"
  then show "ExitStatus (push_bit 8 c) = uint c"
    by (rule ExitStatus_exited)
next
  fix world s cmd w flags r status
  assume a: "executeCommand world s cmd w flags = Returns r \<and> Call_Wait \<in> set (calls r) \<and>
      Wait_err (launch world (cmd_after r)) = Some (ExitError (WaitStatus status))"
  then have "err r = errors_Wrapf (Some (ExitError (WaitStatus status))) ''Error running `%s`''
                   [FormatCommand world (Path cmd) (tl (Args cmd))]"
    using executeCommand_after_Wait [of world s cmd w flags r] by simp
  then show "GetExitCode (err r) = ExitStatus status"
    by (simp add: errors_Wrapf_def GetExitCode_def)
next
  fix e
  assume "\<forall>status. errors_Cause e \<noteq> ExitError (WaitStatus status)"
  then show "GetExitCode (Some e) = 1"
    by (rule GetExitCode_no_status)
qed

theorem GetExitCode_exit_status_witness:
  "executeCommand (example_world failing_process) example_shell (example_cmd ''/bin/false'') []
       \<lparr>flag_Stdout = True, flag_Stderr = True, flag_PTY = False\<rparr>
     = Returns
         \<lparr>err = Some (withStack (withMessage (ExitError (WaitStatus 0x300)) ''Error running `%s`''
                         [''/bin/false''])),
          sink = [],
          cmd_after = (example_cmd ''/bin/false'')\<lparr>Cmd_Stdout := Some W\<rparr>,
          calls = [Call_Start, Call_Wait]\<rparr> \<and>
   GetExitCode (Some (withStack (withMessage (ExitError (WaitStatus 0x300)) ''Error running `%s`''
                         [''/bin/false'']))) = 3 \<and>
   ExitStatus (push_bit 8 3) = 3 \<and>
   GetExitCode (Some (PathError ''fork/exec'' ''/bin/missing'' (Errno 2))) = 1"
proof -
  let ?r = "\<lparr>err = Some (withStack (withMessage (ExitError (WaitStatus 0x300)) ''Error running `%s`''
                         [''/bin/false''])),
          sink = [],
          cmd_after = (example_cmd ''/bin/false'')\<lparr>Cmd_Stdout := Some W\<rparr>,
          calls = [Call_Start, Call_Wait]\<rparr>"
  have run: "executeCommand (example_world failing_process) example_shell (example_cmd ''/bin/false'') []
       \<lparr>flag_Stdout = True, flag_Stderr = True, flag_PTY = False\<rparr> = Returns ?r"
    by (simp add: executeCommand_def example_world_def failing_process_def example_shell_def
          example_cmd_def errors_Wrapf_def delivered_def)
  have waited: "Call_Wait \<in> set (calls ?r)"
    by simp
  have status: "Wait_err (launch (example_world failing_process) (cmd_after ?r))
                  = Some (ExitError (WaitStatus 0x300))"
    by (simp add: example_world_def failing_process_def)
  from GetExitCode_exit_status run waited status
  have "GetExitCode (err ?r) = ExitStatus 0x300"
    by blast
  moreover have "(3::32 word) \<le> 255"
    by simp
  with GetExitCode_exit_status have "ExitStatus (push_bit 8 3) = uint (3::32 word)"
    by blast
  moreover have "\<forall>status. errors_Cause (PathError ''fork/exec'' ''/bin/missing'' (Errno 2))
                   \<noteq> ExitError (WaitStatus status)"
    by simp
  with GetExitCode_exit_status
  have "GetExitCode (Some (PathError ''fork/exec'' ''/bin/missing'' (Errno 2))) = 1"
    by blast
  ultimately show ?thesis
    using run by (simp add: ExitStatus_def Exited_def)
qed

text \<open>C10. An error that is not \<open>nil\<close> and whose cause is not an \<open>*exec.ExitError\<close> gives
  exit code 1, and so does an exit error whose \<open>Sys()\<close> is not a \<open>syscall.WaitStatus\<close>. The
  error \<open>executeCommand\<close> returns when the terminal cannot be started is of this kind
  whatever the underlying error, and so is its error for a child that cannot be started,
  when \<open>cmd.Start\<close> fails with anything but an exit error.\<close>

theorem GetExitCode_without_exit_status:
  "(\<forall>e. (\<forall>sys. errors_Cause e \<noteq> ExitError sys) \<longrightarrow> GetExitCode (Some e) = 1) \<and>
   (\<forall>e. errors_Cause e = ExitError OtherSys \<longrightarrow> GetExitCode (Some e) = 1) \<and>
   (\<forall>world s cmd w flags r e.
      executeCommand world s cmd w flags = Returns r \<and> flag_PTY flags \<and>
      StartPTY_err (launch world cmd) = Some e \<longrightarrow>
      GetExitCode (err r) = 1) \<and>
   (\<forall>world s cmd w flags r e.
      executeCommand world s cmd w flags = Returns r \<and> \<not> flag_PTY flags \<and>
      Start_err (launch world (cmd_after r)) = Some e \<and>
      (\<forall>sys. errors_Cause e \<noteq> ExitError sys) \<longrightarrow>
      GetExitCode (err r) = 1)"
proof (intro conjI allI impI)
  fix e
  assume "\<forall>sys. errors_Cause e \<noteq> ExitError sys"
  then show "GetExitCode (Some e) = 1"
    by (simp add: GetExitCode_no_status)
next
  fix e
  assume "errors_Cause e = ExitError OtherSys"
  then show "GetExitCode (Some e) = 1"
    by (simp add: GetExitCode_def)
next
  fix world s cmd w flags r e
  assume "executeCommand world s cmd w flags = Returns r \<and> flag_PTY flags \<and>
      StartPTY_err (launch world cmd) = Some e"
  then have "err r = Some (Errorf ''Error starting PTY: %v'' [] (Some e))"
    using executeCommand_StartPTY_fails [of world s cmd w flags r e] by simp
  then show "GetExitCode (err r) = 1"
    by (simp add: GetExitCode_def)
next
  fix world s cmd w flags r e
  assume a: "executeCommand world s cmd w flags = Returns r \<and> \<not> flag_PTY flags \<and>
      Start_err (launch world (cmd_after r)) = Some e \<and>
      (\<forall>sys. errors_Cause e \<noteq> ExitError sys)"
  then have "err r = errors_Wrapf (Some e) ''Error starting `%s`''
                   [FormatCommand world (Path cmd) (tl (Args cmd))]"
    using executeCommand_Start_fails [of world s cmd w flags r e] by simp
  moreover from a have "\<forall>status. errors_Cause e \<noteq> ExitError (WaitStatus status)"
    by simp
  ultimately show "GetExitCode (err r) = 1"
    using GetExitCode_no_status [of "withStack (withMessage e ''Error starting `%s`''
                   [FormatCommand world (Path cmd) (tl (Args cmd))])"]
    by (simp add: errors_Wrapf_def)
qed

theorem GetExitCode_without_exit_status_witness:
  "executeCommand (example_world unstartable_process) example_shell (example_cmd ''/bin/missing'') []
       \<lparr>flag_Stdout = True, flag_Stderr = True, flag_PTY = True\<rparr>
     = Returns
         \<lparr>err = Some (Errorf ''Error starting PTY: %v'' []
                        (Some (PathError ''open'' ''/dev/ptmx'' (Errno 2)))),
          sink = [], cmd_after = example_cmd ''/bin/missing'', calls = [Call_StartPTY]\<rparr> \<and>
   GetExitCode (Some (Errorf ''Error starting PTY: %v'' []
                        (Some (PathError ''open'' ''/dev/ptmx'' (Errno 2))))) = 1 \<and>
   executeCommand (example_world unstartable_process) example_shell (example_cmd ''/bin/missing'') []
       \<lparr>flag_Stdout = True, flag_Stderr = True, flag_PTY = False\<rparr>
     = Returns
         \<lparr>err = Some (withStack (withMessage (PathError ''fork/exec'' ''/bin/missing'' (Errno 2))
                          ''Error starting `%s`'' [''/bin/missing''])),
          sink = [], cmd_after = (example_cmd ''/bin/missing'')\<lparr>Cmd_Stdout := Some W\<rparr>,
          calls = [Call_Start]\<rparr> \<and>
   GetExitCode (Some (withStack (withMessage (PathError ''fork/exec'' ''/bin/missing'' (Errno 2))
                          ''Error starting `%s`'' [''/bin/missing'']))) = 1 \<and>
   GetExitCode (Some (withStack (withMessage (ExitError OtherSys) ''Error running `%s`''
                          [''/bin/false'']))) = 1"
proof -
  let ?w = "example_world unstartable_process"
  let ?c = "example_cmd ''/bin/missing''"
  let ?r1 = "\<lparr>err = Some (Errorf ''Error starting PTY: %v'' []
                        (Some (PathError ''open'' ''/dev/ptmx'' (Errno 2)))),
          sink = [], cmd_after = ?c, calls = [Call_StartPTY]\<rparr>"
  let ?r2 = "\<lparr>err = Some (withStack (withMessage (PathError ''fork/exec'' ''/bin/missing'' (Errno 2))
                          ''Error starting `%s`'' [''/bin/missing''])),
          sink = [], cmd_after = ?c\<lparr>Cmd_Stdout := Some W\<rparr>,
          calls = [Call_Start]\<rparr>"
  have run1: "executeCommand ?w example_shell ?c []
       \<lparr>flag_Stdout = True, flag_Stderr = True, flag_PTY = True\<rparr> = Returns ?r1"
    by (simp add: executeCommand_def example_world_def unstartable_process_def example_shell_def
          example_cmd_def)
  have run2: "executeCommand ?w example_shell ?c []
       \<lparr>flag_Stdout = True, flag_Stderr = True, flag_PTY = False\<rparr> = Returns ?r2"
    by (simp add: executeCommand_def example_world_def unstartable_process_def example_shell_def
          example_cmd_def errors_Wrapf_def)
  have pty: "StartPTY_err (launch ?w ?c) = Some (PathError ''open'' ''/dev/ptmx'' (Errno 2))"
    by (simp add: example_world_def unstartable_process_def)
  have start: "Start_err (launch ?w (cmd_after ?r2))
                 = Some (PathError ''fork/exec'' ''/bin/missing'' (Errno 2))"
    by (simp add: example_world_def unstartable_process_def)
  have other: "\<forall>sys. errors_Cause (PathError ''fork/exec'' ''/bin/missing'' (Errno 2))
                  \<noteq> ExitError sys"
    by simp
  from GetExitCode_without_exit_status run1 pty
  have "GetExitCode (err ?r1) = 1"
    by (metis executeFlags.select_convs(3))
  moreover from GetExitCode_without_exit_status run2 start other
  have "GetExitCode (err ?r2) = 1"
    by (metis executeFlags.select_convs(3))
  moreover from GetExitCode_without_exit_status
  have "GetExitCode (Some (withStack (withMessage (ExitError OtherSys) ''Error running `%s`''
                          [''/bin/false'']))) = 1"
    by simp
  ultimately show ?thesis
    using run1 run2 by simp
qed

section \<open>Errors of the copy from the terminal\<close>

text \<open>C1. In PTY mode \<open>executeCommand\<close> inspects the error of \<open>io.Copy\<close> and then goes on to
  \<open>cmd.Wait()\<close> whatever it was. Here the copy fails with a broken pipe on the output,
  which is not the \<open>EIO\<close> of a closing terminal, the child exits with status 0, and the
  call returns \<open>nil\<close>.\<close>

theorem executeCommand_swallows_copy_error:
  "executeCommand (example_world broken_pipe_process) example_shell (example_cmd ''/bin/echo'') []
       \<lparr>flag_Stdout = True, flag_Stderr = True, flag_PTY = True\<rparr>
     = Returns \<lparr>err = None, sink = ''partial'', cmd_after = example_cmd ''/bin/echo'',
                calls = [Call_StartPTY, Call_Copy, Call_Wait]\<rparr> \<and>
   Copy_err (launch (example_world broken_pipe_process) (example_cmd ''/bin/echo''))
     = Some (PathError ''write'' ''/dev/stdout'' (Errno 32)) \<and>
   \<not> is_PathError_EIO (Some (PathError ''write'' ''/dev/stdout'' (Errno 32)))"
  by (simp add: executeCommand_def example_world_def broken_pipe_process_def example_shell_def
        example_cmd_def is_PathError_EIO_def EIO_def)

section \<open>The wiring of the child in pipe mode\<close>

lemma executeCommand_flags:
  "executeCommand world s cmd w (flags\<lparr>flag_Stdout := a, flag_Stderr := b\<rparr>)
     = executeCommand world s cmd w flags"
  by (cases "Args cmd") (simp_all add: executeCommand_def Let_def)

lemma executeCommand_pipe_wiring:
  assumes "executeCommand world s cmd w flags = Returns r" and "\<not> flag_PTY flags"
  shows "Cmd_Stdout (cmd_after r) = Some (if Debug s then MultiWriter [LoggerStreamer, W] else W)"
    and "Cmd_Stderr (cmd_after r) = (if Debug s then Some LoggerStreamer else None)"
    and "Cmd_Stdin (cmd_after r) = None"
    and "Call_StartPTY \<notin> set (calls r)" and "Call_Copy \<notin> set (calls r)"
    and "Call_Wait \<in> set (calls r) \<Longrightarrow> sink r = w @ stdout_bytes (launch world (cmd_after r))"
    and "Call_Wait \<notin> set (calls r) \<Longrightarrow> sink r = w \<and> err r \<noteq> None"
  using assms
  by (auto simp: executeCommand_def Let_def delivered_def errors_Wrapf_def
           split: list.splits if_splits option.splits)

text \<open>C9. Without a PTY the fields \<open>Stdout\<close> and \<open>Stderr\<close> of the flags change nothing:
  the call returns the same with any values for them. The child's standard output is
  wired to \<open>w\<close> (through a \<open>MultiWriter\<close> in debug mode), so all its bytes reach \<open>w\<close>;
  without debug mode its standard error and standard input are \<open>nil\<close>; and once the child
  has run, \<open>w\<close> has received its standard output and nothing else.\<close>

theorem executeCommand_ignores_capture_flags:
  assumes "\<not> flag_PTY flags"
  shows "executeCommand world s cmd w (flags\<lparr>flag_Stdout := a, flag_Stderr := b\<rparr>)
           = executeCommand world s cmd w flags \<and>
         (\<forall>r. executeCommand world s cmd w flags = Returns r \<longrightarrow>
            Cmd_Stdout (cmd_after r) = Some (if Debug s then MultiWriter [LoggerStreamer, W] else W) \<and>
            (\<forall>bytes. delivered (Cmd_Stdout (cmd_after r)) bytes = bytes) \<and>
            (\<not> Debug s \<longrightarrow> Cmd_Stderr (cmd_after r) = None \<and> Cmd_Stdin (cmd_after r) = None) \<and>
            (Call_Wait \<in> set (calls r) \<longrightarrow>
               sink r = w @ stdout_bytes (launch world (cmd_after r))))"
proof (intro conjI allI impI)
  show "executeCommand world s cmd w (flags\<lparr>flag_Stdout := a, flag_Stderr := b\<rparr>)
           = executeCommand world s cmd w flags"
    by (rule executeCommand_flags)
next
  fix r
  assume r: "executeCommand world s cmd w flags = Returns r"
  show out: "Cmd_Stdout (cmd_after r) = Some (if Debug s then MultiWriter [LoggerStreamer, W] else W)"
    using executeCommand_pipe_wiring(1) [OF r assms] .
  show "delivered (Cmd_Stdout (cmd_after r)) bytes = bytes" for bytes
    by (simp add: out delivered_def)
  show "Cmd_Stderr (cmd_after r) = None" if "\<not> Debug s"
    using executeCommand_pipe_wiring(2) [OF r assms] that by simp
  show "Cmd_Stdin (cmd_after r) = None"
    using executeCommand_pipe_wiring(3) [OF r assms] .
  show "sink r = w @ stdout_bytes (launch world (cmd_after r))" if "Call_Wait \<in> set (calls r)"
    using executeCommand_pipe_wiring(6) [OF r assms that] .
qed

theorem executeCommand_ignores_capture_flags_witness:
  "executeCommand (example_world noisy_process) example_shell (example_cmd ''/bin/echo'') []
       \<lparr>flag_Stdout = True, flag_Stderr = True, flag_PTY = False\<rparr>
     = Returns \<lparr>err = None, sink = ''out'',
                cmd_after = (example_cmd ''/bin/echo'')\<lparr>Cmd_Stdout := Some W\<rparr>,
                calls = [Call_Start, Call_Wait]\<rparr> \<and>
   executeCommand (example_world noisy_process) example_shell (example_cmd ''/bin/echo'') []
       \<lparr>flag_Stdout = False, flag_Stderr = False, flag_PTY = False\<rparr>
     = executeCommand (example_world noisy_process) example_shell (example_cmd ''/bin/echo'') []
       \<lparr>flag_Stdout = True, flag_Stderr = True, flag_PTY = False\<rparr> \<and>
   stderr_bytes (launch (example_world noisy_process)
                   ((example_cmd ''/bin/echo'')\<lparr>Cmd_Stdout := Some W\<rparr>)) = ''warning''"
proof -
  let ?flags = "\<lparr>flag_Stdout = True, flag_Stderr = True, flag_PTY = False\<rparr>"
  let ?r = "\<lparr>err = None, sink = ''out'',
                cmd_after = (example_cmd ''/bin/echo'')\<lparr>Cmd_Stdout := Some W\<rparr>,
                calls = [Call_Start, Call_Wait]\<rparr>"
  have pipe: "\<not> flag_PTY ?flags"
    by simp
  have run: "executeCommand (example_world noisy_process) example_shell (example_cmd ''/bin/echo'') []
               ?flags = Returns ?r"
    by (simp add: executeCommand_def example_world_def noisy_process_def example_shell_def
          example_cmd_def delivered_def)
  note inst = executeCommand_ignores_capture_flags [OF pipe,
      of "example_world noisy_process" example_shell "example_cmd ''/bin/echo''" "[]" False False]
  from inst have "executeCommand (example_world noisy_process) example_shell
                   (example_cmd ''/bin/echo'') []
                   (?flags\<lparr>flag_Stdout := False, flag_Stderr := False\<rparr>)
                 = executeCommand (example_world noisy_process) example_shell
                     (example_cmd ''/bin/echo'') [] ?flags"
    by blast
  moreover from inst run
  have "Cmd_Stderr (cmd_after ?r) = None \<and> sink ?r = [] @ stdout_bytes (launch (example_world noisy_process) (cmd_after ?r))"
    by (simp add: example_shell_def)
  ultimately show ?thesis
    using run by (simp add: example_world_def noisy_process_def)
qed

section \<open>Changing the working directory\<close>



text \<open>C2. The shell that \<open>New\<close> makes starts in the current directory of the process.
  \<open>Chdir\<close> asks \<open>os.Stat\<close> only whether the path exists: \<open>/etc/hosts\<close> is a regular file
  (\<open>IsDir\<close> is false), and \<open>Chdir\<close> makes it the working directory and returns \<open>nil\<close>.\<close>

theorem Chdir_commits_regular_file:
  "New (example_world failing_process) = Inr example_shell \<and>
   os_Stat (example_world failing_process) ''/etc/hosts'' = Inr (FileInfo False) \<and>
   Chdir (example_world failing_process) example_shell ''/etc/hosts''
     = (example_shell\<lparr>wd := ''/etc/hosts''\<rparr>, None)"
  by (simp add: New_def Chdir_def example_world_def example_shell_def filepath_IsAbs_def FromSlice_def)

section \<open>Resolving an executable\<close>

text \<open>C8. \<open>AbsolutePath\<close> tests the name with \<open>path.IsAbs\<close>, which knows only the slash,
  where \<open>Chdir\<close> tests its path with \<open>filepath.IsAbs\<close>. On Windows a name that starts
  with a drive letter is absolute for \<open>filepath.IsAbs\<close> and not for \<open>path.IsAbs\<close>:
  \<open>AbsolutePath\<close> reads \<open>PATH\<close> and \<open>PATHEXT\<close> from the shell, hands the name to
  \<open>lookPath\<close> with them, and returns the error of the lookup instead of the name (the
  last step of \<open>AbsolutePath\<close>, \<open>filepath.Abs\<close>, is not reached).\<close>

theorem AbsolutePath_windows_drive_letter:
  "filepath_IsAbs_windows windows_name \<and> \<not> path_IsAbs windows_name \<and>
   AbsolutePath windows_world windows_shell windows_name
     = Inl (ExecError windows_name
              (Errorf ''file does not exist; searched %s with %s''
                 [''C:'' @ [CHR 0x5C] @ ''Windows'', ''.COM;.EXE;.BAT''] None))"
  by (simp add: filepath_IsAbs_windows_def volumeNameLen_def is_letter_def isSlash_def
        windows_name_def path_IsAbs_def AbsolutePath_def windows_world_def windows_shell_def
        Env_Get_def)

section \<open>Capturing the output of a command\<close>

lemma TrimLeft_space_no_prefix:
  "e \<in> set space_encodings \<Longrightarrow> \<not> prefix e (TrimLeft_space s)"
proof (induction s rule: TrimLeft_space.induct)
  case (1 s)
  show ?case
  proof (cases "find (\<lambda>e. prefix e s) space_encodings")
    case None
    then have "TrimLeft_space s = s"
      by (simp add: TrimLeft_space.simps [of s])
    with None "1.prems" show ?thesis
      by (auto simp: find_None_iff)
  next
    case (Some e')
    then have "TrimLeft_space s = TrimLeft_space (drop (length e') s)"
      by (simp add: TrimLeft_space.simps [of s])
    with "1.IH" [OF Some "1.prems"] show ?thesis
      by simp
  qed
qed

lemma TrimLeft_space_split: "\<exists>l. spaces l \<and> s = l @ TrimLeft_space s"
proof (induction s rule: TrimLeft_space.induct)
  case (1 s)
  show ?case
  proof (cases "find (\<lambda>e. prefix e s) space_encodings")
    case None
    then have "TrimLeft_space s = s"
      by (simp add: TrimLeft_space.simps [of s])
    moreover have "spaces []"
      unfolding spaces_def by (rule exI [of _ "[]"]) simp
    ultimately show ?thesis
      by (intro exI [of _ "[]"]) simp
  next
    case (Some e')
    then have eq: "TrimLeft_space s = TrimLeft_space (drop (length e') s)"
      by (simp add: TrimLeft_space.simps [of s])
    from Some have mem: "e' \<in> set space_encodings" and pre: "prefix e' s"
      by (auto simp: find_Some_iff)
    from "1.IH" [OF Some] obtain l es where es: "set es \<subseteq> set space_encodings" "l = concat es"
      and l: "drop (length e') s = l @ TrimLeft_space (drop (length e') s)"
      by (auto simp: spaces_def)
    from pre have "s = e' @ drop (length e') s"
      by (auto simp: prefix_def)
    with l eq have "s = (e' @ l) @ TrimLeft_space s"
      by simp
    moreover have "spaces (e' @ l)"
      unfolding spaces_def using es mem by (intro exI [of _ "e' # es"]) simp
    ultimately show ?thesis
      by blast
  qed
qed

lemma TrimRight_space_no_suffix:
  "e \<in> set space_encodings \<Longrightarrow> \<not> suffix e (TrimRight_space s)"
proof (induction s rule: TrimRight_space.induct)
  case (1 s)
  show ?case
  proof (cases "find (\<lambda>e. suffix e s) space_encodings")
    case None
    then have "TrimRight_space s = s"
      by (simp add: TrimRight_space.simps [of s])
    with None "1.prems" show ?thesis
      by (auto simp: find_None_iff)
  next
    case (Some e')
    then have "TrimRight_space s = TrimRight_space (take (length s - length e') s)"
      by (simp add: TrimRight_space.simps [of s])
    with "1.IH" [OF Some "1.prems"] show ?thesis
      by simp
  qed
qed

lemma TrimRight_space_split: "\<exists>r. spaces r \<and> s = TrimRight_space s @ r"
proof (induction s rule: TrimRight_space.induct)
  case (1 s)
  show ?case
  proof (cases "find (\<lambda>e. suffix e s) space_encodings")
    case None
    then have "TrimRight_space s = s"
      by (simp add: TrimRight_space.simps [of s])
    moreover have "spaces []"
      unfolding spaces_def by (rule exI [of _ "[]"]) simp
    ultimately show ?thesis
      by (intro exI [of _ "[]"]) simp
  next
    case (Some e')
    then have eq: "TrimRight_space s = TrimRight_space (take (length s - length e') s)"
      by (simp add: TrimRight_space.simps [of s])
    from Some have mem: "e' \<in> set space_encodings" and suf: "suffix e' s"
      by (auto simp: find_Some_iff)
    from "1.IH" [OF Some] obtain r es where es: "set es \<subseteq> set space_encodings" "r = concat es"
      and r: "take (length s - length e') s
                = TrimRight_space (take (length s - length e') s) @ r"
      by (auto simp: spaces_def)
    from suf have "s = take (length s - length e') s @ e'"
      by (auto simp: suffix_def)
    with r eq have "s = TrimRight_space s @ (r @ e')"
      by (metis append_assoc)
    moreover have "spaces (r @ e')"
      unfolding spaces_def using es mem by (intro exI [of _ "es @ [e']"]) simp
    ultimately show ?thesis
      by blast
  qed
qed

lemma TrimSpace_trimmed:
  assumes "e \<in> set space_encodings"
  shows "\<not> prefix e (TrimSpace s)" and "\<not> suffix e (TrimSpace s)"
proof -
  obtain r where "TrimLeft_space s = TrimSpace s @ r"
    using TrimRight_space_split [of "TrimLeft_space s"] by (auto simp: TrimSpace_def)
  then have "prefix (TrimSpace s) (TrimLeft_space s)"
    by (simp add: prefix_def)
  then show "\<not> prefix e (TrimSpace s)"
    using TrimLeft_space_no_prefix [OF assms, of s] by (meson prefix_order.trans)
  show "\<not> suffix e (TrimSpace s)"
    unfolding TrimSpace_def by (rule TrimRight_space_no_suffix [OF assms])
qed

lemma TrimSpace_split: "\<exists>l r. spaces l \<and> spaces r \<and> s = l @ TrimSpace s @ r"
proof -
  obtain l where l: "spaces l" "s = l @ TrimLeft_space s"
    using TrimLeft_space_split [of s] by blast
  obtain r where r: "spaces r" "TrimLeft_space s = TrimSpace s @ r"
    using TrimRight_space_split [of "TrimLeft_space s"] by (auto simp: TrimSpace_def)
  from l r have "s = l @ TrimSpace s @ r"
    by simp
  with l r show ?thesis
    by blast
qed

lemma buildCommand_PTY: "buildCommand world (s\<lparr>PTY := b\<rparr>) command arg = buildCommand world s command arg"
  by (simp add: buildCommand_def AbsolutePath_def split: sum.splits)

lemma executeCommand_PTY:
  "executeCommand world (s\<lparr>PTY := b\<rparr>) cmd w flags = executeCommand world s cmd w flags"
  by (cases "Args cmd") (simp_all add: executeCommand_def Let_def)

lemma RunAndCapture_PTY:
  "RunAndCapture world (s\<lparr>PTY := b\<rparr>) command arg = RunAndCapture world s command arg"
  by (simp add: RunAndCapture_def buildCommand_PTY executeCommand_PTY split: sum.splits)

lemma RunAndCapture_execution:
  assumes "RunAndCapture world s command arg = Returns c" and "execution c = Some r"
  shows "\<exists>cmd. buildCommand world s command arg = Inr cmd \<and>
           executeCommand world s cmd []
             \<lparr>flag_Stdout = True, flag_Stderr = False, flag_PTY = False\<rparr> = Returns r \<and>
           capture_err c = err r \<and>
           (err r = None \<longrightarrow> captured c = TrimSpace (sink r))"
  using assms
  by (auto simp: RunAndCapture_def split: sum.splits outcome.splits option.splits)

lemma RunAndCapture_success:
  assumes "RunAndCapture world s command arg = Returns c" and "capture_err c = None"
  shows "\<exists>r. execution c = Some r"
  using assms
  by (auto simp: RunAndCapture_def split: sum.splits outcome.splits option.splits)

text \<open>C6. \<open>RunAndCapture\<close> does the same whatever the PTY flag of the shell. The call of
  \<open>executeCommand\<close> it makes never starts a terminal and never copies from one, and the
  child's standard error is wired to \<open>nil\<close>, or to a logger streamer in debug mode, so none
  of its bytes reach the buffer. When it returns without an error, the text it returns
  is \<open>strings.TrimSpace\<close> of the child's standard output: the output without a stretch of
  space runes at each end, and with no space rune left at either end.\<close>

theorem RunAndCapture_trims_stdout:
  "RunAndCapture world (s\<lparr>PTY := b\<rparr>) command arg = RunAndCapture world s command arg \<and>
   (\<forall>c r. RunAndCapture world s command arg = Returns c \<and> execution c = Some r \<longrightarrow>
      Call_StartPTY \<notin> set (calls r) \<and> Call_Copy \<notin> set (calls r) \<and>
      Cmd_Stderr (cmd_after r) = (if Debug s then Some LoggerStreamer else None) \<and>
      (\<forall>bytes. delivered (Cmd_Stderr (cmd_after r)) bytes = [])) \<and>
   (\<forall>c. RunAndCapture world s command arg = Returns c \<and> capture_err c = None \<longrightarrow>
      (\<exists>r l t. execution c = Some r \<and>
         captured c = TrimSpace (stdout_bytes (launch world (cmd_after r))) \<and>
         stdout_bytes (launch world (cmd_after r)) = l @ captured c @ t \<and>
         spaces l \<and> spaces t) \<and>
      (\<forall>e \<in> set space_encodings. \<not> prefix e (captured c) \<and> \<not> suffix e (captured c)))"
proof (intro conjI allI impI ballI)
  show "RunAndCapture world (s\<lparr>PTY := b\<rparr>) command arg = RunAndCapture world s command arg"
    by (rule RunAndCapture_PTY)
next
  fix c r
  assume a: "RunAndCapture world s command arg = Returns c \<and> execution c = Some r"
  then obtain cmd where run: "executeCommand world s cmd []
             \<lparr>flag_Stdout = True, flag_Stderr = False, flag_PTY = False\<rparr> = Returns r"
    using RunAndCapture_execution [of world s command arg c r] by blast
  have pipe: "\<not> flag_PTY \<lparr>flag_Stdout = True, flag_Stderr = False, flag_PTY = False\<rparr>"
    by simp
  show "Call_StartPTY \<notin> set (calls r)"
    using executeCommand_pipe_wiring(4) [OF run pipe] .
  show "Call_Copy \<notin> set (calls r)"
    using executeCommand_pipe_wiring(5) [OF run pipe] .
  show err_wiring: "Cmd_Stderr (cmd_after r) = (if Debug s then Some LoggerStreamer else None)"
    using executeCommand_pipe_wiring(2) [OF run pipe] .
  show "delivered (Cmd_Stderr (cmd_after r)) bytes = []" for bytes
    by (simp add: err_wiring delivered_def)
next
  fix c
  assume a: "RunAndCapture world s command arg = Returns c \<and> capture_err c = None"
  then obtain r where r: "execution c = Some r"
    using RunAndCapture_success [of world s command arg c] by blast
  with a obtain cmd where run: "executeCommand world s cmd []
             \<lparr>flag_Stdout = True, flag_Stderr = False, flag_PTY = False\<rparr> = Returns r"
    and ok: "err r = None" and cap: "captured c = TrimSpace (sink r)"
    using RunAndCapture_execution [of world s command arg c r] by auto
  have pipe: "\<not> flag_PTY \<lparr>flag_Stdout = True, flag_Stderr = False, flag_PTY = False\<rparr>"
    by simp
  from ok have "Call_Wait \<in> set (calls r)"
    using executeCommand_pipe_wiring(7) [OF run pipe] by blast
  then have "sink r = [] @ stdout_bytes (launch world (cmd_after r))"
    by (rule executeCommand_pipe_wiring(6) [OF run pipe])
  with cap have cap': "captured c = TrimSpace (stdout_bytes (launch world (cmd_after r)))"
    by simp
  obtain l t where "spaces l" "spaces t"
    and "stdout_bytes (launch world (cmd_after r))
           = l @ TrimSpace (stdout_bytes (launch world (cmd_after r))) @ t"
    using TrimSpace_split [of "stdout_bytes (launch world (cmd_after r))"] by blast
  with r cap' show "\<exists>r l t. execution c = Some r \<and>
         captured c = TrimSpace (stdout_bytes (launch world (cmd_after r))) \<and>
         stdout_bytes (launch world (cmd_after r)) = l @ captured c @ t \<and>
         spaces l \<and> spaces t"
    by auto
  fix e
  assume e: "e \<in> set space_encodings"
  show "\<not> prefix e (captured c)"
    unfolding cap' by (rule TrimSpace_trimmed(1) [OF e])
  show "\<not> suffix e (captured c)"
    unfolding cap' by (rule TrimSpace_trimmed(2) [OF e])
qed

theorem RunAndCapture_trims_stdout_witness:
  "RunAndCapture (example_world echo_process) (example_shell\<lparr>PTY := True\<rparr>) ''echo'' [''hello'']
     = Returns
         \<lparr>captured = ''hello'', capture_err = None,
          execution = Some
            \<lparr>err = None, sink = ''hello'' @ [CHR 0x0A],
             cmd_after =
               \<lparr>Path = ''/bin/echo'', Args = [''/bin/echo'', ''hello''], Cmd_Env = [''PATH=/bin''],
                Dir = ''/home/agent'', Cmd_Stdout = Some W, Cmd_Stderr = None, Cmd_Stdin = None,
                lookPathErr = None\<rparr>,
             calls = [Call_Start, Call_Wait]\<rparr>\<rparr> \<and>
   \<not> suffix [CHR 0x0A] ''hello''"
proof -
  let ?w = "example_world echo_process"
  let ?cmd = "\<lparr>Path = ''/bin/echo'', Args = [''/bin/echo'', ''hello''], Cmd_Env = [''PATH=/bin''],
                Dir = ''/home/agent'', Cmd_Stdout = None, Cmd_Stderr = None, Cmd_Stdin = None,
                lookPathErr = None\<rparr>"
  let ?r = "\<lparr>err = None, sink = ''hello'' @ [CHR 0x0A],
             cmd_after = ?cmd\<lparr>Cmd_Stdout := Some W\<rparr>, calls = [Call_Start, Call_Wait]\<rparr>"
  let ?c = "\<lparr>captured = ''hello'', capture_err = None, execution = Some ?r\<rparr>"
  have trim: "TrimSpace (''hello'' @ [CHR 0x0A]) = ''hello''"
    by code_simp
  have "filepath_Clean ''/bin/echo'' = ''/bin/echo''"
    by (simp add: filepath_Clean_def clean_step_def)
  then have abs: "AbsolutePath ?w example_shell ''echo'' = Inr ''/bin/echo''"
    by (simp add: AbsolutePath_def path_IsAbs_def example_world_def example_shell_def Env_Get_def
          filepath_Abs_def filepath_IsAbs_def)
  have "filepath_Base ''/bin/echo'' = ''echo''"
    by (simp add: filepath_Base_def)
  with abs have build: "buildCommand ?w example_shell ''echo'' [''hello''] = Inr ?cmd"
    by (simp add: buildCommand_def exec_Command_def example_shell_def ToSlice_def)
  have exec: "executeCommand ?w example_shell ?cmd []
                \<lparr>flag_Stdout = True, flag_Stderr = False, flag_PTY = False\<rparr> = Returns ?r"
    by (simp add: executeCommand_def example_world_def echo_process_def example_shell_def
          delivered_def)
  from build exec trim have run: "RunAndCapture ?w example_shell ''echo'' [''hello''] = Returns ?c"
    by (simp add: RunAndCapture_def)
  note inst = RunAndCapture_trims_stdout [of ?w True example_shell "''echo''" "[''hello'']"]
  from inst run have "RunAndCapture ?w (example_shell\<lparr>PTY := True\<rparr>) ''echo'' [''hello''] = Returns ?c"
    by simp
  moreover have "[CHR 0x0A] \<in> set space_encodings"
    by (simp add: space_encodings_def)
  with inst run have "\<not> suffix [CHR 0x0A] (captured ?c)"
    by (metis Captured.select_convs(2))
  ultimately show ?thesis
    by simp
qed

section \<open>Descriptors are snapshots\<close>

lemma buildCommand_fields:
  assumes "buildCommand world s name arg = Inr cmd"
  shows "Dir cmd = wd s" and "Cmd_Env cmd = ToSlice (Env s)"
  using assms by (auto simp: buildCommand_def split: sum.splits)

lemma store_Chdir_agrees:
  "load_Shell (fst (store_Chdir world st s path)) s = fst (Chdir world (load_Shell st s) path) \<and>
   snd (store_Chdir world st s path) = snd (Chdir world (load_Shell st s) path)"
  by (auto simp: store_Chdir_def Chdir_def load_Shell_def Let_def split: sum.splits)

lemma store_buildCommand_agrees:
  assumes "store_buildCommand world st s name arg = (st', Inr cmd)"
  shows "buildCommand world (load_Shell st s) name arg = Inr (load_Cmd st' cmd)"
  using assms
  by (auto simp: store_buildCommand_def buildCommand_def load_Cmd_def load_Shell_def Let_def
           split: sum.splits)

lemma store_buildCommand_allocates:
  assumes "store_buildCommand world st s name arg = (st', Inr cmd)"
  shows "cmd < next_cmd st'" and "Env_slice (cmd_at st' cmd) < next_slice st'"
  using assms
  by (auto simp: store_buildCommand_def Let_def split: sum.splits)

lemma do_step_frame:
  assumes "cmd < next_cmd st" and "Env_slice (cmd_at st cmd) < next_slice st"
  shows "cmd_at (do_step world st x) cmd = cmd_at st cmd"
    and "slice_at (do_step world st x) (Env_slice (cmd_at st cmd))
           = slice_at st (Env_slice (cmd_at st cmd))"
    and "next_cmd st \<le> next_cmd (do_step world st x)"
    and "next_slice st \<le> next_slice (do_step world st x)"
  using assms
  by (cases x; auto simp: store_Chdir_def store_Env_Set_def store_Env_assign_def
            store_buildCommand_def Let_def split: sum.splits)+

lemma do_steps_frame:
  assumes "cmd < next_cmd st" and "Env_slice (cmd_at st cmd) < next_slice st"
  shows "load_Cmd (do_steps world st steps) cmd = load_Cmd st cmd"
  using assms
proof (induction steps arbitrary: st)
  case Nil
  then show ?case
    by (simp add: do_steps_def)
next
  case (Cons x steps)
  note f = do_step_frame [OF Cons.prems, of world x]
  have "cmd < next_cmd (do_step world st x)"
    using Cons.prems(1) f(3) by simp
  moreover have "Env_slice (cmd_at (do_step world st x) cmd) < next_slice (do_step world st x)"
    using Cons.prems(2) f(1) f(4) by simp
  ultimately have "load_Cmd (do_steps world (do_step world st x) steps) cmd
                     = load_Cmd (do_step world st x) cmd"
    by (rule Cons.IH)
  moreover have "load_Cmd (do_step world st x) cmd = load_Cmd st cmd"
    using f(1) f(2) by (simp add: load_Cmd_def)
  ultimately show ?case
    by (simp add: do_steps_def)
qed

text \<open>C7. When \<open>buildCommand\<close> has returned a descriptor, the descriptor is the one the
  shell gave at that moment: its \<open>Dir\<close> is the working directory the shell had and its
  \<open>Env\<close> the flattened environment the shell had. Every later step on the store
  (\<open>Chdir\<close> on any shell, setting a variable in the environment a shell points to,
  pointing a shell to another environment, building further descriptors) leaves the
  descriptor at its address as it was: the steps write shell and environment objects,
  and new commands and slices get addresses of their own.\<close>

theorem buildCommand_descriptor_is_snapshot:
  assumes "store_buildCommand world st s name arg = (st', Inr cmd)"
  shows "buildCommand world (load_Shell st s) name arg = Inr (load_Cmd st' cmd) \<and>
         Dir (load_Cmd st' cmd) = wd (load_Shell st s) \<and>
         Cmd_Env (load_Cmd st' cmd) = ToSlice (Env (load_Shell st s)) \<and>
         load_Cmd (do_steps world st' steps) cmd = load_Cmd st' cmd"
proof -
  have built: "buildCommand world (load_Shell st s) name arg = Inr (load_Cmd st' cmd)"
    by (rule store_buildCommand_agrees [OF assms])
  then have "Dir (load_Cmd st' cmd) = wd (load_Shell st s)"
    and "Cmd_Env (load_Cmd st' cmd) = ToSlice (Env (load_Shell st s))"
    using buildCommand_fields [OF built] by simp_all
  moreover have "load_Cmd (do_steps world st' steps) cmd = load_Cmd st' cmd"
    by (rule do_steps_frame [OF store_buildCommand_allocates [OF assms]])
  ultimately show ?thesis
    using built by simp
qed


theorem buildCommand_descriptor_is_snapshot_witness:
  "load_Cmd
     (do_steps (example_world echo_process)
        (fst (store_buildCommand (example_world echo_process) example_store 0 ''echo'' [''hello'']))
        [Step_Chdir 0 ''/bin'', Step_Env_Set 0 ''PATH'' ''/usr/bin'',
         Step_buildCommand 0 ''/bin/false'' []]) 0
     = \<lparr>Path = ''/bin/echo'', Args = [''/bin/echo'', ''hello''], Cmd_Env = [''PATH=/bin''],
        Dir = ''/home/agent'', Cmd_Stdout = None, Cmd_Stderr = None, Cmd_Stdin = None,
        lookPathErr = None\<rparr> \<and>
   load_Cmd
     (do_steps (example_world echo_process)
        (fst (store_buildCommand (example_world echo_process) example_store 0 ''echo'' [''hello'']))
        [Step_Chdir 0 ''/bin'', Step_Env_Set 0 ''PATH'' ''/usr/bin'',
         Step_buildCommand 0 ''/bin/false'' []]) 1
     = \<lparr>Path = ''/bin/false'', Args = [''/bin/false''], Cmd_Env = [''PATH=/usr/bin''],
        Dir = ''/bin'', Cmd_Stdout = None, Cmd_Stderr = None, Cmd_Stdin = None,
        lookPathErr = None\<rparr>"
proof -
  let ?w = "example_world echo_process"
  let ?steps = "[Step_Chdir 0 ''/bin'', Step_Env_Set 0 ''PATH'' ''/usr/bin'',
                 Step_buildCommand 0 ''/bin/false'' []]"
  let ?echo = "\<lparr>Path = ''/bin/echo'', Args = [''/bin/echo'', ''hello''], Cmd_Env = [''PATH=/bin''],
        Dir = ''/home/agent'', Cmd_Stdout = None, Cmd_Stderr = None, Cmd_Stdin = None,
        lookPathErr = None\<rparr>"
  obtain st' where st': "st' = fst (store_buildCommand ?w example_store 0 ''echo'' [''hello''])"
    by simp
  have "filepath_Clean ''/bin/echo'' = ''/bin/echo''"
    by (simp add: filepath_Clean_def clean_step_def)
  then have abs: "AbsolutePath ?w sh ''echo'' = Inr ''/bin/echo''"
    if "Env sh = [(''PATH'', ''/bin'')]" for sh
    using that
    by (simp add: AbsolutePath_def path_IsAbs_def example_world_def Env_Get_def
          filepath_Abs_def filepath_IsAbs_def)
  have abs': "AbsolutePath ?w sh ''/bin/false'' = Inr ''/bin/false''" for sh
    by (simp add: AbsolutePath_def path_IsAbs_def)
  have stat: "os_Stat ?w ''/bin'' = Inr (FileInfo True)"
    by (simp add: example_world_def)
  have base: "filepath_Base ''/bin/echo'' = ''echo''" "filepath_Base ''/bin/false'' = ''false''"
    by (simp_all add: filepath_Base_def)
  have made: "exec_Command ?w ''/bin/echo'' [''hello'']
                = \<lparr>Path = ''/bin/echo'', Args = [''/bin/echo'', ''hello''], Cmd_Env = [], Dir = [],
                   Cmd_Stdout = None, Cmd_Stderr = None, Cmd_Stdin = None, lookPathErr = None\<rparr>"
    and made': "exec_Command ?w ''/bin/false'' []
                = \<lparr>Path = ''/bin/false'', Args = [''/bin/false''], Cmd_Env = [], Dir = [],
                   Cmd_Stdout = None, Cmd_Stderr = None, Cmd_Stdin = None, lookPathErr = None\<rparr>"
    by (simp_all add: exec_Command_def base)
  have build: "store_buildCommand ?w example_store 0 ''echo'' [''hello''] = (st', Inr 0)"
    unfolding st'
    by (simp add: store_buildCommand_def load_Shell_def example_store_def abs made)
  have first: "load_Cmd st' 0 = ?echo"
    unfolding st'
    by (simp add: store_buildCommand_def load_Shell_def load_Cmd_def example_store_def
          ToSlice_def abs made)
  from buildCommand_descriptor_is_snapshot [OF build, of ?steps] first
  have kept: "load_Cmd (do_steps ?w st' ?steps) 0 = ?echo"
    by simp
  have "load_Cmd (do_steps ?w st' ?steps) 1
     = \<lparr>Path = ''/bin/false'', Args = [''/bin/false''], Cmd_Env = [''PATH=/usr/bin''],
        Dir = ''/bin'', Cmd_Stdout = None, Cmd_Stderr = None, Cmd_Stdin = None,
        lookPathErr = None\<rparr>"
    unfolding st'
    by (simp add: do_steps_def store_buildCommand_def store_Chdir_def store_Env_Set_def
          load_Shell_def load_Cmd_def example_store_def ToSlice_def filepath_IsAbs_def
          Let_def abs abs' made made' stat)
  with kept show ?thesis
    unfolding st' by simp
qed

section \<open>Waiting for the lock file\<close>

lemma lockRetryDuration_pos: "0 < lockRetryDuration"
  by (simp add: lockRetryDuration_def)

lemma lock_loop_trace:
  assumes "lock_loop try c t tried = (e, t', tried')"
  shows "\<exists>n. tried' = tried @ map (\<lambda>k. t + int k * lockRetryDuration) [0..<Suc n] \<and>
             (\<forall>k<n. try (t + int k * lockRetryDuration) \<noteq> None) \<and>
             (\<forall>k. 0 < k \<and> k \<le> n \<longrightarrow> ctx_Err c (t + int k * lockRetryDuration) = None) \<and>
             (case e of
                None \<Rightarrow> try (t + int n * lockRetryDuration) = None \<and>
                        t' = t + int n * lockRetryDuration
              | Some x \<Rightarrow> try (t + int n * lockRetryDuration) \<noteq> None \<and>
                          t' = t + int (Suc n) * lockRetryDuration \<and> ctx_Err c t' = Some x)"
  using assms
proof (induction "try" c t tried arbitrary: e t' tried' rule: lock_loop.induct)
  case (1 "try" c t tried)
  let ?r = lockRetryDuration
  show ?case
  proof (cases "try t = None")
    case True
    with "1.prems" have "e = None" "t' = t" "tried' = tried @ [t]"
      by (auto simp: lock_loop.simps [of "try" c t tried])
    with True show ?thesis
      by (intro exI [of _ 0]) simp
  next
    case busy: False
    show ?thesis
    proof (cases "ctx_Err c (t + ?r) = None")
      case False
      with busy "1.prems" have "e = ctx_Err c (t + ?r)" "t' = t + ?r" "tried' = tried @ [t]"
        by (auto simp: lock_loop.simps [of "try" c t tried])
      with False busy show ?thesis
        by (intro exI [of _ 0]) auto
    next
      case True
      with busy "1.prems" have "lock_loop try c (t + ?r) (tried @ [t]) = (e, t', tried')"
        by (simp add: lock_loop.simps [of "try" c t tried])
      from "1.IH" [OF busy _ this] True
      obtain n where tr: "tried' = (tried @ [t]) @ map (\<lambda>k. t + ?r + int k * ?r) [0..<Suc n]"
        and fail: "\<forall>k<n. try (t + ?r + int k * ?r) \<noteq> None"
        and live: "\<forall>k. 0 < k \<and> k \<le> n \<longrightarrow> ctx_Err c (t + ?r + int k * ?r) = None"
        and last: "case e of
                None \<Rightarrow> try (t + ?r + int n * ?r) = None \<and> t' = t + ?r + int n * ?r
              | Some x \<Rightarrow> try (t + ?r + int n * ?r) \<noteq> None \<and>
                          t' = t + ?r + int (Suc n) * ?r \<and> ctx_Err c t' = Some x"
        by auto
      have shift: "t + ?r + int k * ?r = t + int (Suc k) * ?r" for k
        by (simp add: algebra_simps)
      have "map (\<lambda>k. t + int k * ?r) [0..<Suc (Suc n)]
              = t # map (\<lambda>k. t + ?r + int k * ?r) [0..<Suc n]"
        unfolding shift by (subst map_upt_Suc) simp
      with tr have tr': "tried' = tried @ map (\<lambda>k. t + int k * ?r) [0..<Suc (Suc n)]"
        by simp
      have fail': "\<forall>k<Suc n. try (t + int k * ?r) \<noteq> None"
      proof (intro allI impI)
        fix k assume "k < Suc n"
        then show "try (t + int k * ?r) \<noteq> None"
          using busy fail shift by (cases k) auto
      qed
      have live': "\<forall>k. 0 < k \<and> k \<le> Suc n \<longrightarrow> ctx_Err c (t + int k * ?r) = None"
      proof (intro allI impI)
        fix k assume k: "0 < k \<and> k \<le> Suc n"
        then obtain j where j: "k = Suc j" "j \<le> n"
          by (cases k) auto
        show "ctx_Err c (t + int k * ?r) = None"
        proof (cases j)
          case 0
          with j True show ?thesis by simp
        next
          case (Suc i)
          with j have "0 < j \<and> j \<le> n" by simp
          with live have "ctx_Err c (t + ?r + int j * ?r) = None" by blast
          then have "ctx_Err c (t + int (Suc j) * ?r) = None" by (simp only: shift)
          with j show ?thesis by simp
        qed
      qed
      note last' = last [unfolded shift]
      show ?thesis
        by (intro exI [of _ "Suc n"] conjI) (rule tr' fail' live' last')+
    qed
  qed
qed


lemma lock_loop_error:
  assumes "lock_loop try c t tried = (Some x, t', tried')"
  shows "x = snd c \<and> fst c \<le> t'"
proof -
  from lock_loop_trace [OF assms] have "ctx_Err c t' = Some x"
    by auto
  then show ?thesis
    by (simp add: ctx_Err_def split: if_splits)
qed

lemma lock_loop_bound:
  assumes "lock_loop try c t tried = (e, t', tried')"
  shows "t' \<le> max t (fst c) + lockRetryDuration"
proof -
  let ?r = lockRetryDuration
  from lock_loop_trace [OF assms] obtain n where
    live: "\<forall>k. 0 < k \<and> k \<le> n \<longrightarrow> ctx_Err c (t + int k * ?r) = None"
    and last: "case e of
                None \<Rightarrow> try (t + int n * ?r) = None \<and> t' = t + int n * ?r
              | Some x \<Rightarrow> try (t + int n * ?r) \<noteq> None \<and>
                          t' = t + int (Suc n) * ?r \<and> ctx_Err c t' = Some x"
    by blast
  have before: "t + int n * ?r \<le> max t (fst c)"
  proof (cases n)
    case 0
    then show ?thesis by simp
  next
    case (Suc m)
    then have "0 < n \<and> n \<le> n" by simp
    with live have "ctx_Err c (t + int n * ?r) = None" by blast
    then show ?thesis
      by (simp add: ctx_Err_def split: if_splits)
  qed
  have step: "t + int (Suc n) * ?r = t + int n * ?r + ?r"
    by (simp add: algebra_simps)
  from last have "t' = t + int n * ?r \<or> t' = t + int (Suc n) * ?r"
    by (cases e) auto
  with before step lockRetryDuration_pos show ?thesis
    by auto
qed

lemma lock_loop_held:
  assumes "lock_loop try c t tried = (e, t', tried')"
    and held: "\<forall>u. u \<le> max t (fst c) \<longrightarrow> try u \<noteq> None"
  shows "e = Some (snd c) \<and> fst c \<le> t' \<and> (t < fst c \<longrightarrow> t' < fst c + lockRetryDuration)"
proof -
  let ?r = lockRetryDuration
  from lock_loop_trace [OF assms(1)] obtain n where
    live: "\<forall>k. 0 < k \<and> k \<le> n \<longrightarrow> ctx_Err c (t + int k * ?r) = None"
    and last: "case e of
                None \<Rightarrow> try (t + int n * ?r) = None \<and> t' = t + int n * ?r
              | Some x \<Rightarrow> try (t + int n * ?r) \<noteq> None \<and>
                          t' = t + int (Suc n) * ?r \<and> ctx_Err c t' = Some x"
    by blast
  have before: "t + int n * ?r \<le> max t (fst c)" and strict: "0 < n \<longrightarrow> t + int n * ?r < fst c"
  proof -
    show "0 < n \<longrightarrow> t + int n * ?r < fst c"
    proof
      assume "0 < n"
      then have "0 < n \<and> n \<le> n" by simp
      with live have "ctx_Err c (t + int n * ?r) = None" by blast
      then show "t + int n * ?r < fst c"
        by (simp add: ctx_Err_def split: if_splits)
    qed
    then show "t + int n * ?r \<le> max t (fst c)"
      by (cases n) auto
  qed
  from held before have busy: "try (t + int n * ?r) \<noteq> None"
    by blast
  with last obtain x where e: "e = Some x" and t': "t' = t + int (Suc n) * ?r"
    and fired: "ctx_Err c t' = Some x"
    by (cases e) auto
  from fired have x: "x = snd c" "fst c \<le> t'"
    by (simp_all add: ctx_Err_def split: if_splits)
  have step: "t + int (Suc n) * ?r = t + int n * ?r + ?r"
    by (simp add: algebra_simps)
  have "t' < fst c + ?r" if "t < fst c"
  proof (cases n)
    case 0
    with t' that show ?thesis by simp
  next
    case (Suc m)
    with strict have "t + int n * ?r < fst c" by simp
    with t' step show ?thesis by simp
  qed
  with e x show ?thesis
    by simp
qed

lemma LockFile_loop:
  assumes "filepath_Abs world path = Inr lock" and "filepath_IsAbs lock"
  shows "lock_loop (TryLock world lock) (WithTimeout (ctx s) (time_Now world) timeout)
           (time_Now world) []
         = (case lock_result (LockFile world s path timeout) of Inl e \<Rightarrow> Some e | Inr l \<Rightarrow> None,
            returned_at (LockFile world s path timeout),
            attempts (LockFile world s path timeout)) \<and>
         (\<forall>l. lock_result (LockFile world s path timeout) = Inr l \<longrightarrow> l = lock)"
  using assms
  by (cases "lock_loop (TryLock world lock) (WithTimeout (ctx s) (time_Now world) timeout)
           (time_Now world) []")
     (auto simp: LockFile_def lockfile_New_def split: option.splits)


text \<open>C4, as the code has it. Once the lock has been made, \<open>LockFile\<close> calls \<open>TryLock\<close> at
  the time of the call and then every \<open>lockRetryDuration\<close>. It looks at the context, made
  from the context of the shell and the timeout, only after an attempt has failed and
  the sleep that follows it: every attempt but the first is made at a time when the
  context was not done. It ends with the lock at the first attempt that succeeds, or
  with \<open>ctx.Err()\<close>, the deadline error or the error of the shell's context, one interval
  after a failed attempt, at the first such moment when the context is done. It returns no
  later than one interval after the later of the call and the moment the context is
  done; when the lock is held until then, it fails with the context's error, and within
  one interval of that moment if the moment comes after the call.\<close>

theorem LockFile_retries_until_context_done:
  assumes "filepath_Abs world path = Inr lock" and "filepath_IsAbs lock"
  shows "(\<exists>n. attempts (LockFile world s path timeout)
                = map (\<lambda>k. time_Now world + int k * lockRetryDuration) [0..<Suc n] \<and>
              (\<forall>k<n. TryLock world lock (time_Now world + int k * lockRetryDuration) \<noteq> None) \<and>
              (\<forall>k. 0 < k \<and> k \<le> n \<longrightarrow>
                 ctx_Err (WithTimeout (ctx s) (time_Now world) timeout)
                   (time_Now world + int k * lockRetryDuration) = None) \<and>
              (case lock_result (LockFile world s path timeout) of
                 Inr l \<Rightarrow>
                   l = lock \<and>
                   TryLock world lock (time_Now world + int n * lockRetryDuration) = None \<and>
                   returned_at (LockFile world s path timeout)
                     = time_Now world + int n * lockRetryDuration
               | Inl e \<Rightarrow>
                   TryLock world lock (time_Now world + int n * lockRetryDuration) \<noteq> None \<and>
                   returned_at (LockFile world s path timeout)
                     = time_Now world + int (Suc n) * lockRetryDuration \<and>
                   e = snd (WithTimeout (ctx s) (time_Now world) timeout) \<and>
                   fst (WithTimeout (ctx s) (time_Now world) timeout)
                     \<le> returned_at (LockFile world s path timeout))) \<and>
         returned_at (LockFile world s path timeout)
           \<le> max (time_Now world) (fst (WithTimeout (ctx s) (time_Now world) timeout))
               + lockRetryDuration \<and>
         ((\<forall>u. u \<le> max (time_Now world) (fst (WithTimeout (ctx s) (time_Now world) timeout)) \<longrightarrow>
               TryLock world lock u \<noteq> None) \<longrightarrow>
            lock_result (LockFile world s path timeout)
              = Inl (snd (WithTimeout (ctx s) (time_Now world) timeout)) \<and>
            fst (WithTimeout (ctx s) (time_Now world) timeout)
              \<le> returned_at (LockFile world s path timeout) \<and>
            (time_Now world < fst (WithTimeout (ctx s) (time_Now world) timeout) \<longrightarrow>
               returned_at (LockFile world s path timeout)
                 < fst (WithTimeout (ctx s) (time_Now world) timeout) + lockRetryDuration)) \<and>
         (snd (WithTimeout (ctx s) (time_Now world) timeout) = DeadlineExceeded \<or>
          (\<exists>t. ctx s = Some (t, snd (WithTimeout (ctx s) (time_Now world) timeout))))"
proof -
  let ?R = "LockFile world s path timeout"
  let ?c = "WithTimeout (ctx s) (time_Now world) timeout"
  let ?now = "time_Now world"
  let ?e = "case lock_result ?R of Inl e \<Rightarrow> Some e | Inr l \<Rightarrow> None"
  from LockFile_loop [OF assms, of s timeout]
  have loop: "lock_loop (TryLock world lock) ?c ?now [] = (?e, returned_at ?R, attempts ?R)"
    and same: "\<forall>l. lock_result ?R = Inr l \<longrightarrow> l = lock"
    by blast+
  from lock_loop_trace [OF loop] obtain n where
    tr: "attempts ?R = map (\<lambda>k. ?now + int k * lockRetryDuration) [0..<Suc n]"
    and fail: "\<forall>k<n. TryLock world lock (?now + int k * lockRetryDuration) \<noteq> None"
    and live: "\<forall>k. 0 < k \<and> k \<le> n \<longrightarrow> ctx_Err ?c (?now + int k * lockRetryDuration) = None"
    and last: "case ?e of
                None \<Rightarrow> TryLock world lock (?now + int n * lockRetryDuration) = None \<and>
                        returned_at ?R = ?now + int n * lockRetryDuration
              | Some x \<Rightarrow> TryLock world lock (?now + int n * lockRetryDuration) \<noteq> None \<and>
                          returned_at ?R = ?now + int (Suc n) * lockRetryDuration \<and>
                          ctx_Err ?c (returned_at ?R) = Some x"
    by auto
  have ending: "case lock_result ?R of
                 Inr l \<Rightarrow>
                   l = lock \<and>
                   TryLock world lock (?now + int n * lockRetryDuration) = None \<and>
                   returned_at ?R = ?now + int n * lockRetryDuration
               | Inl e \<Rightarrow>
                   TryLock world lock (?now + int n * lockRetryDuration) \<noteq> None \<and>
                   returned_at ?R = ?now + int (Suc n) * lockRetryDuration \<and>
                   e = snd ?c \<and> fst ?c \<le> returned_at ?R"
  proof (cases "lock_result ?R")
    case (Inl e)
    with loop have "lock_loop (TryLock world lock) ?c ?now [] = (Some e, returned_at ?R, attempts ?R)"
      by simp
    from lock_loop_error [OF this] last Inl show ?thesis
      by simp
  next
    case (Inr l)
    with last same show ?thesis
      by simp
  qed
  have first: "\<exists>n. attempts ?R = map (\<lambda>k. ?now + int k * lockRetryDuration) [0..<Suc n] \<and>
              (\<forall>k<n. TryLock world lock (?now + int k * lockRetryDuration) \<noteq> None) \<and>
              (\<forall>k. 0 < k \<and> k \<le> n \<longrightarrow> ctx_Err ?c (?now + int k * lockRetryDuration) = None) \<and>
              (case lock_result ?R of
                 Inr l \<Rightarrow>
                   l = lock \<and>
                   TryLock world lock (?now + int n * lockRetryDuration) = None \<and>
                   returned_at ?R = ?now + int n * lockRetryDuration
               | Inl e \<Rightarrow>
                   TryLock world lock (?now + int n * lockRetryDuration) \<noteq> None \<and>
                   returned_at ?R = ?now + int (Suc n) * lockRetryDuration \<and>
                   e = snd ?c \<and> fst ?c \<le> returned_at ?R)"
    by (intro exI [of _ n] conjI) (rule tr fail live ending)+
  have bound: "returned_at ?R \<le> max ?now (fst ?c) + lockRetryDuration"
    by (rule lock_loop_bound [OF loop])
  have held: "(\<forall>u. u \<le> max ?now (fst ?c) \<longrightarrow> TryLock world lock u \<noteq> None) \<longrightarrow>
            lock_result ?R = Inl (snd ?c) \<and> fst ?c \<le> returned_at ?R \<and>
            (?now < fst ?c \<longrightarrow> returned_at ?R < fst ?c + lockRetryDuration)"
  proof
    assume "\<forall>u. u \<le> max ?now (fst ?c) \<longrightarrow> TryLock world lock u \<noteq> None"
    from lock_loop_held [OF loop this] show "lock_result ?R = Inl (snd ?c) \<and>
        fst ?c \<le> returned_at ?R \<and> (?now < fst ?c \<longrightarrow> returned_at ?R < fst ?c + lockRetryDuration)"
      by (cases "lock_result ?R") simp_all
  qed
  have which: "snd ?c = DeadlineExceeded \<or> (\<exists>t. ctx s = Some (t, snd ?c))"
    by (cases "ctx s") (auto simp: WithTimeout_def)
  from first bound held which show ?thesis
    by blast
qed


theorem LockFile_retries_until_context_done_witness:
  "LockFile (example_world failing_process) (example_shell\<lparr>ctx := Some (1500000000, Canceled)\<rparr>)
       ''/var/lock/held'' 10000000000
     = \<lparr>lock_result = Inl Canceled, returned_at = 2000000000, attempts = [0, 1000000000]\<rparr> \<and>
   LockFile (example_world failing_process) example_shell ''/var/lock/agent'' 10000000000
     = \<lparr>lock_result = Inr ''/var/lock/agent'', returned_at = 3000000000,
        attempts = [0, 1000000000, 2000000000, 3000000000]\<rparr>"
proof -
  let ?w = "example_world failing_process"
  let ?s = "example_shell\<lparr>ctx := Some (1500000000, Canceled)\<rparr>"
  have now: "time_Now ?w = 0"
    by (simp add: example_world_def)
  have c: "WithTimeout (Some (1500000000, Canceled)) 0 10000000000 = (1500000000, Canceled)"
    by (simp add: WithTimeout_def)
  have "filepath_Clean ''/var/lock/held'' = ''/var/lock/held''"
    by (simp add: filepath_Clean_def clean_step_def)
  then have abs: "filepath_Abs ?w ''/var/lock/held'' = Inr ''/var/lock/held''"
    by (simp add: filepath_Abs_def filepath_IsAbs_def)
  have rooted: "filepath_IsAbs ''/var/lock/held''"
    by (simp add: filepath_IsAbs_def)
  have busy: "\<forall>u. u \<le> max (time_Now ?w) (fst (WithTimeout (ctx ?s) (time_Now ?w) 10000000000)) \<longrightarrow>
                TryLock ?w ''/var/lock/held'' u \<noteq> None"
    by (simp add: example_world_def)
  from LockFile_retries_until_context_done [OF abs rooted, of ?s 10000000000]
  have "(\<forall>u. u \<le> max (time_Now ?w) (fst (WithTimeout (ctx ?s) (time_Now ?w) 10000000000)) \<longrightarrow>
                TryLock ?w ''/var/lock/held'' u \<noteq> None) \<longrightarrow>
        lock_result (LockFile ?w ?s ''/var/lock/held'' 10000000000)
          = Inl (snd (WithTimeout (ctx ?s) (time_Now ?w) 10000000000))"
    by blast
  with busy have "lock_result (LockFile ?w ?s ''/var/lock/held'' 10000000000)
          = Inl (snd (WithTimeout (ctx ?s) (time_Now ?w) 10000000000))"
    by blast
  then have "lock_result (LockFile ?w ?s ''/var/lock/held'' 10000000000) = Inl Canceled"
    by (simp add: now c)
  moreover have "lock_loop (TryLock ?w ''/var/lock/held'') (1500000000, Canceled) 0 []
                   = (Some Canceled, 2000000000, [0, 1000000000])"
    by (simp add: lock_loop.simps ctx_Err_def lockRetryDuration_def example_world_def)
  then have "LockFile ?w ?s ''/var/lock/held'' 10000000000
     = \<lparr>lock_result = Inl Canceled, returned_at = 2000000000, attempts = [0, 1000000000]\<rparr>"
    by (simp add: LockFile_def abs lockfile_New_def rooted now c)
  moreover have "filepath_Clean ''/var/lock/agent'' = ''/var/lock/agent''"
    by (simp add: filepath_Clean_def clean_step_def)
  then have abs': "filepath_Abs ?w ''/var/lock/agent'' = Inr ''/var/lock/agent''"
    by (simp add: filepath_Abs_def filepath_IsAbs_def)
  have "lock_loop (TryLock ?w ''/var/lock/agent'') (10000000000, DeadlineExceeded) 0 []
          = (None, 3000000000, [0, 1000000000, 2000000000, 3000000000])"
    by (simp add: lock_loop.simps ctx_Err_def lockRetryDuration_def example_world_def)
  then have "LockFile ?w example_shell ''/var/lock/agent'' 10000000000
     = \<lparr>lock_result = Inr ''/var/lock/agent'', returned_at = 3000000000,
        attempts = [0, 1000000000, 2000000000, 3000000000]\<rparr>"
    by (simp add: LockFile_def abs' lockfile_New_def filepath_IsAbs_def now WithTimeout_def
          example_shell_def)
  ultimately show ?thesis
    by simp
qed

text \<open>C4, as the claim has it, fails where the context is done before the first attempt:
  with the shell's context cancelled two seconds before the call, or with a timeout of
  0, and a lock file that is free, \<open>LockFile\<close> makes its first attempt and returns the
  lock.\<close>

theorem LockFile_acquires_after_context_done:
  "ctx_Err (WithTimeout (Some (1000000000, Canceled)) (time_Now late_world) 10000000000)
       (time_Now late_world) = Some Canceled \<and>
   LockFile late_world (example_shell\<lparr>ctx := Some (1000000000, Canceled)\<rparr>)
       ''/var/lock/agent'' 10000000000
     = \<lparr>lock_result = Inr ''/var/lock/agent'', returned_at = 3000000000,
        attempts = [3000000000]\<rparr> \<and>
   ctx_Err (WithTimeout None (time_Now late_world) 0) (time_Now late_world)
     = Some DeadlineExceeded \<and>
   LockFile late_world example_shell ''/var/lock/agent'' 0
     = \<lparr>lock_result = Inr ''/var/lock/agent'', returned_at = 3000000000,
        attempts = [3000000000]\<rparr>"
proof -
  have now: "time_Now late_world = 3000000000"
    by (simp add: late_world_def)
  have "filepath_Clean ''/var/lock/agent'' = ''/var/lock/agent''"
    by (simp add: filepath_Clean_def clean_step_def)
  then have abs: "filepath_Abs late_world ''/var/lock/agent'' = Inr ''/var/lock/agent''"
    by (simp add: filepath_Abs_def filepath_IsAbs_def)
  have free: "lock_loop (TryLock late_world ''/var/lock/agent'') c 3000000000 []
                = (None, 3000000000, [3000000000])" for c
    by (simp add: lock_loop.simps late_world_def example_world_def)
  show ?thesis
    by (simp add: LockFile_def abs lockfile_New_def filepath_IsAbs_def now free WithTimeout_def
          ctx_Err_def example_shell_def)
qed

end
